theory Spec2Isabelle
  imports Main "HOL-Library.Word"
begin

unbundle bit_operations_syntax

section \<open>Linux Wi-Fi capture helper (capture\_linux\_wifi.c)\<close>

text \<open>
  A shallow embedding of the channel grammar, the channel controller, the naming of the
  monitor interface and the packet dispatch callback of \<^verbatim>\<open>capture_linux_wifi.c\<close>.
  C \<^verbatim>\<open>unsigned int\<close> and \<^verbatim>\<open>uint32_t\<close> are 32-bit words, \<^verbatim>\<open>int\<close> results of library
  calls are integers, \<^verbatim>\<open>char *\<close> values that may be \<^verbatim>\<open>NULL\<close> are \<open>string option\<close>,
  opaque handles are \<open>nat option\<close>. Every call into the capture framework, the pcap
  library or a wireless control backend is recorded, in order, in a trace of events; what
  such a call returns is supplied by the environment.
\<close>

type_synonym u8 = "8 word"
type_synonym u32 = "32 word"
type_synonym ptr = "nat option"

subsection \<open>Constants of the system headers\<close>

text \<open>\<^verbatim>\<open>enum nl80211_channel_type\<close> and \<^verbatim>\<open>enum nl80211_chan_width\<close> of linux/nl80211.h.\<close>

definition NL80211_CHAN_HT40MINUS :: u32 where "NL80211_CHAN_HT40MINUS = 2"
definition NL80211_CHAN_HT40PLUS :: u32 where "NL80211_CHAN_HT40PLUS = 3"

definition NL80211_CHAN_WIDTH_80 :: u32 where "NL80211_CHAN_WIDTH_80 = 3"
definition NL80211_CHAN_WIDTH_160 :: u32 where "NL80211_CHAN_WIDTH_160 = 5"
definition NL80211_CHAN_WIDTH_5 :: u32 where "NL80211_CHAN_WIDTH_5 = 6"
definition NL80211_CHAN_WIDTH_10 :: u32 where "NL80211_CHAN_WIDTH_10 = 7"

text \<open>\<^verbatim>\<open>IFNAMSIZ\<close> of net/if.h.\<close>

definition IFNAMSIZ :: nat where "IFNAMSIZ = 16"

subsection \<open>State of the helper and the channel descriptor\<close>

text \<open>\<^verbatim>\<open>local_wifi_t\<close>, the state kept in the handler's userdata.\<close>

record local_wifi =
  pd :: ptr
  interface :: "string option"
  cap_interface :: "string option"
  datalink_type :: int
  override_dlt :: int
  use_mac80211 :: int
  mac80211_handle :: ptr
  mac80211_cache :: ptr
  mac80211_family :: ptr
  seq_channel_failure :: u32
  reset_nm_management :: int

text \<open>\<^verbatim>\<open>local_channel_t\<close>, the parsed form of a channel string.\<close>

record local_channel =
  control_freq :: u32
  chan_type :: u32
  chan_width :: u32
  unusual_center1 :: u32
  center_freq1 :: u32
  center_freq2 :: u32

text \<open>The descriptor after \<^verbatim>\<open>memset(ret_localchan, 0, sizeof(local_channel_t))\<close>.\<close>

definition zero_channel :: local_channel where
  "zero_channel = \<lparr>control_freq = 0, chan_type = 0, chan_width = 0,
     unusual_center1 = 0, center_freq1 = 0, center_freq2 = 0\<rparr>"

subsection \<open>Calls to the collaborators\<close>

datatype msgflag = MSGFLAG_INFO | MSGFLAG_ERROR

text \<open>
  One constructor for each external call the modelled functions make; the arguments are
  those of the C call, without the handler and without output buffers.
\<close>

datatype event =
    Cf_send_message string msgflag
  | Cf_send_error string
  | Cf_send_configresp_channel u32 int "string option" string
  | Cf_send_data "int \<times> int" int u32 "u8 list"
  | Cf_handler_wait_ringbuffer
  | Cf_handler_spindown
  | Pcap_breakloop ptr
  | Iwconfig_set_channel "string option" u32
  | Mac80211_set_frequency_cache "string option" ptr ptr u32 u32 u32 u32
  | Mac80211_set_channel_cache "string option" ptr ptr u32 u32

text \<open>
  What the channel-set operations of the two control backends return: the result code
  and the text they leave in \<^verbatim>\<open>errstr\<close>.
\<close>

record backend =
  iwconfig_set_channel :: "string option \<Rightarrow> u32 \<Rightarrow> int \<times> string"
  mac80211_set_frequency_cache ::
    "string option \<Rightarrow> ptr \<Rightarrow> ptr \<Rightarrow> u32 \<Rightarrow> u32 \<Rightarrow> u32 \<Rightarrow> u32 \<Rightarrow> int \<times> string"
  mac80211_set_channel_cache ::
    "string option \<Rightarrow> ptr \<Rightarrow> ptr \<Rightarrow> u32 \<Rightarrow> u32 \<Rightarrow> int \<times> string"

subsection \<open>Printing numbers\<close>

definition digit_char :: "nat \<Rightarrow> char" where
  "digit_char d = char_of (48 + d)"

text \<open>The conversions \<^verbatim>\<open>%u\<close> and, for a value that is not negative, \<^verbatim>\<open>%d\<close>.\<close>

fun utoa :: "nat \<Rightarrow> string" where
  "utoa n = (if n < 10 then [digit_char n] else utoa (n div 10) @ [digit_char (n mod 10)])"

declare utoa.simps [simp del]

definition fmt_u :: "u32 \<Rightarrow> string" where
  "fmt_u w = utoa (unat w)"

subsection \<open>Serializer\<close>

text \<open>
  \<^verbatim>\<open>local_channel_to_str\<close>. No output comes near \<^verbatim>\<open>STATUS_MAX\<close> characters, so the
  bound of \<^verbatim>\<open>snprintf\<close> is not modelled.
\<close>

definition local_channel_to_str :: "local_channel \<Rightarrow> string" where
  "local_channel_to_str chan =
     (if chan_type chan = 0 \<and> chan_width chan = 0 then fmt_u (control_freq chan)
      else if chan_type chan = NL80211_CHAN_HT40MINUS then fmt_u (control_freq chan) @ ''HT40-''
      else if chan_type chan = NL80211_CHAN_HT40PLUS then fmt_u (control_freq chan) @ ''HT40+''
      else if chan_width chan = NL80211_CHAN_WIDTH_5 then fmt_u (control_freq chan) @ ''W5''
      else if chan_width chan = NL80211_CHAN_WIDTH_10 then fmt_u (control_freq chan) @ ''W10''
      else if chan_width chan = NL80211_CHAN_WIDTH_80 then
        (if unusual_center1 chan \<noteq> 0
         then fmt_u (control_freq chan) @ ''VHT80-'' @ fmt_u (center_freq1 chan)
         else fmt_u (control_freq chan) @ ''VHT80'')
      else if chan_width chan = NL80211_CHAN_WIDTH_160 then
        (if unusual_center1 chan \<noteq> 0
         then fmt_u (control_freq chan) @ ''VHT160-'' @ fmt_u (center_freq1 chan)
         else fmt_u (control_freq chan) @ ''VHT160'')
      else fmt_u (control_freq chan))"

subsection \<open>Channel controller\<close>

text \<open>
  The handling of a failed channel set, written twice in \<^verbatim>\<open>chancontrol_callback\<close> with
  the same text (once for each backend): below ten recorded failures and in hop context
  (\<^verbatim>\<open>seqno == 0\<close>) the error is reported as a message and 0 is returned; otherwise
  \<^verbatim>\<open>msg\<close> is filled, \<^verbatim>\<open>cf_send_error\<close> is called in hop context, and -1 is returned.
  The result is the return value, the state, \<^verbatim>\<open>msg\<close> and the calls made.
\<close>

definition chanset_failed ::
  "local_wifi \<Rightarrow> u32 \<Rightarrow> local_channel \<Rightarrow> string \<Rightarrow> int \<times> local_wifi \<times> string \<times> event list" where
  "chanset_failed local_wifi seqno channel errstr =
     (if seq_channel_failure local_wifi < 10 \<and> seqno = 0 then
        (let chanstr = local_channel_to_str channel;
             msg = ''Could not set channel '' @ chanstr @ ''; ignoring error and continuing (''
                     @ errstr @ '')''
         in (0, local_wifi, msg, [Cf_send_message msg MSGFLAG_ERROR]))
      else
        (let chanstr = local_channel_to_str channel;
             msg = ''failed to set channel '' @ chanstr @ '': '' @ errstr
         in (-1, local_wifi, msg, if seqno = 0 then [Cf_send_error msg] else [])))"

text \<open>
  \<^verbatim>\<open>chancontrol_callback\<close>. \<open>privchan\<close> is \<open>None\<close> for a \<^verbatim>\<open>NULL\<close> descriptor; \<open>msg\<close> is
  the content of the caller's message buffer, returned as the callback leaves it.
\<close>

definition chancontrol_callback ::
  "backend \<Rightarrow> local_wifi \<Rightarrow> u32 \<Rightarrow> local_channel option \<Rightarrow> string
     \<Rightarrow> int \<times> local_wifi \<times> string \<times> event list" where
  "chancontrol_callback be local_wifi seqno privchan msg =
     (case privchan of
        None \<Rightarrow> (0, local_wifi, msg, [])
      | Some channel \<Rightarrow>
          if use_mac80211 local_wifi = 0 then
            (let call = Iwconfig_set_channel (interface local_wifi) (control_freq channel);
                 (r, errstr) = iwconfig_set_channel be (interface local_wifi) (control_freq channel)
             in if r < 0 then
                  (case chanset_failed local_wifi seqno channel errstr of
                     (ret, lw, m, evs) \<Rightarrow> (ret, lw, m, call # evs))
                else
                  (0, local_wifi\<lparr>seq_channel_failure := 0\<rparr>, msg,
                   call # (if seqno \<noteq> 0
                           then [Cf_send_configresp_channel seqno 1 None
                                   (local_channel_to_str channel)]
                           else [])))
          else
            (let (call, (r, errstr)) =
                   (if chan_width channel \<noteq> 0 then
                      (Mac80211_set_frequency_cache (cap_interface local_wifi)
                         (mac80211_handle local_wifi) (mac80211_family local_wifi)
                         (control_freq channel) (chan_width channel)
                         (center_freq1 channel) (center_freq2 channel),
                       mac80211_set_frequency_cache be (cap_interface local_wifi)
                         (mac80211_handle local_wifi) (mac80211_family local_wifi)
                         (control_freq channel) (chan_width channel)
                         (center_freq1 channel) (center_freq2 channel))
                    else
                      (Mac80211_set_channel_cache (cap_interface local_wifi)
                         (mac80211_handle local_wifi) (mac80211_family local_wifi)
                         (control_freq channel) (chan_type channel),
                       mac80211_set_channel_cache be (cap_interface local_wifi)
                         (mac80211_handle local_wifi) (mac80211_family local_wifi)
                         (control_freq channel) (chan_type channel)))
             in if r < 0 then
                  (case chanset_failed local_wifi seqno channel errstr of
                     (ret, lw, m, evs) \<Rightarrow> (ret, lw, m, call # evs))
                else
                  (0, local_wifi\<lparr>seq_channel_failure := 0\<rparr>, msg, [call])))"

subsection \<open>The HT channel table\<close>

text \<open>
  Modelled from the spec: the header \<^verbatim>\<open>wifi_ht_channels.h\<close> with the type
  \<^verbatim>\<open>wifi_channel\<close>, the table \<^verbatim>\<open>wifi_ht_channels\<close>, the flag masks and
  \<^verbatim>\<open>MAX_WIFI_HT_CHANNEL\<close> is not among the sources. By the spec an entry maps a channel
  number and its frequency in MHz to the set of the flags HT40-, HT40+, VHT80 and VHT160
  it supports and to the 80 MHz and 160 MHz center frequencies. The test
  \<^verbatim>\<open>(flags & WIFI_HT_X) == 0\<close> of the source is \<open>WIFI_HT_X \<notin> flags e\<close>. The table
  and \<^verbatim>\<open>MAX_WIFI_HT_CHANNEL\<close> are parameters of the parser.
\<close>

datatype ht_flag = WIFI_HT_HT40MINUS | WIFI_HT_HT40PLUS | WIFI_HT_HT80 | WIFI_HT_HT160

record wifi_channel =
  chan :: u32
  freq :: u32
  flags :: "ht_flag set"
  freq80 :: u32
  freq160 :: u32

subsection \<open>Reading with sscanf\<close>

definition isspace_c :: "char \<Rightarrow> bool" where
  "isspace_c c \<longleftrightarrow> (of_char c :: nat) = 32 \<or> (9 \<le> (of_char c :: nat) \<and> (of_char c :: nat) \<le> 13)"

definition isdigit_c :: "char \<Rightarrow> bool" where
  "isdigit_c c \<longleftrightarrow> 48 \<le> (of_char c :: nat) \<and> (of_char c :: nat) \<le> 57"

definition digit_val :: "char \<Rightarrow> nat" where
  "digit_val c = of_char c - 48"

definition tolower_c :: "char \<Rightarrow> char" where
  "tolower_c c =
     (if 65 \<le> (of_char c :: nat) \<and> (of_char c :: nat) \<le> 90
      then char_of ((of_char c :: nat) + 32) else c)"

text \<open>\<^verbatim>\<open>strcasecmp(a, b) == 0\<close>.\<close>

definition strcasecmp_eq :: "string \<Rightarrow> string \<Rightarrow> bool" where
  "strcasecmp_eq a b \<longleftrightarrow> map tolower_c a = map tolower_c b"

text \<open>The digits at the head of the input, read as a decimal number, and the rest.\<close>

fun scan_digits :: "nat \<Rightarrow> string \<Rightarrow> nat \<times> string" where
  "scan_digits acc [] = (acc, [])"
| "scan_digits acc (c # cs) =
     (if isdigit_c c then scan_digits (10 * acc + digit_val c) cs else (acc, c # cs))"

text \<open>
  What the conversion \<^verbatim>\<open>%u\<close> stores for a number \<open>n\<close> read with or without a minus
  sign. The C library reads the number as \<^verbatim>\<open>strtoul\<close> does, into an \<^verbatim>\<open>unsigned long\<close>
  of 64 bits: a number above \<^verbatim>\<open>ULONG_MAX\<close> gives \<^verbatim>\<open>ULONG_MAX\<close>, whatever the sign, and a
  minus sign negates a number in range modulo \<open>2 ^ 64\<close>. The result is stored in an
  \<^verbatim>\<open>unsigned int\<close>, which keeps its low 32 bits: a number below \<open>2 ^ 64\<close> is reduced
  modulo \<open>2 ^ 32\<close>, a number from \<open>2 ^ 64\<close> on is stored as \<open>4294967295\<close>.
\<close>

definition ULONG_MAX :: nat where
  "ULONG_MAX = 2 ^ 64 - 1"

definition strtoul_u32 :: "bool \<Rightarrow> nat \<Rightarrow> u32" where
  "strtoul_u32 neg n =
     (if n > ULONG_MAX then of_nat ULONG_MAX else if neg then - of_nat n else of_nat n)"

text \<open>
  The conversion \<^verbatim>\<open>%u\<close>: white space is skipped, a sign is accepted, at least one
  digit must follow, and all the digits that follow are read. \<open>None\<close> is a failed
  conversion.
\<close>

definition scanf_u :: "string \<Rightarrow> (u32 \<times> string) option" where
  "scanf_u s =
     (let s1 = dropWhile isspace_c s;
          neg = (s1 \<noteq> [] \<and> hd s1 = CHR ''-'');
          s2 = (if s1 \<noteq> [] \<and> (hd s1 = CHR ''-'' \<or> hd s1 = CHR ''+'') then tl s1 else s1)
      in if s2 \<noteq> [] \<and> isdigit_c (hd s2)
         then (case scan_digits 0 s2 of (n, rest) \<Rightarrow> Some (strtoul_u32 neg n, rest))
         else None)"

text \<open>
  \<^verbatim>\<open>sscanf(chanstr, "%uHT40%c", &parsechan, &mod)\<close>: the constructor gives the number
  of conversions done (\<open>Ht40_r0\<close> stands for a result \<open>\<le> 0\<close>) and the values stored.
\<close>

datatype ht40_scan = Ht40_r0 | Ht40_r1 u32 | Ht40_r2 u32 char

definition sscanf_ht40 :: "string \<Rightarrow> ht40_scan" where
  "sscanf_ht40 chanstr =
     (case scanf_u chanstr of
        None \<Rightarrow> Ht40_r0
      | Some (parsechan, s) \<Rightarrow>
          (if take 4 s = ''HT40'' then
             (case drop 4 s of [] \<Rightarrow> Ht40_r1 parsechan | modc # _ \<Rightarrow> Ht40_r2 parsechan modc)
           else Ht40_r1 parsechan))"

text \<open>
  \<^verbatim>\<open>sscanf(chanstr, "%u%15[^-]-%u", &parsechan, parsetype, &parse_center1)\<close>: the
  second conversion takes the longest run of at most 15 characters other than \<^verbatim>\<open>-\<close>
  and fails on an empty run.
\<close>

datatype vht_scan = Vht_r0 | Vht_r1 u32 | Vht_r2 u32 string | Vht_r3 u32 string u32

definition sscanf_vht :: "string \<Rightarrow> vht_scan" where
  "sscanf_vht chanstr =
     (case scanf_u chanstr of
        None \<Rightarrow> Vht_r0
      | Some (parsechan, s) \<Rightarrow>
          (let parsetype = takeWhile (\<lambda>c. c \<noteq> CHR ''-'') (take 15 s)
           in if parsetype = [] then Vht_r1 parsechan
              else (case drop (length parsetype) s of
                      [] \<Rightarrow> Vht_r2 parsechan parsetype
                    | c # s' \<Rightarrow>
                        if c = CHR ''-'' then
                          (case scanf_u s' of
                             None \<Rightarrow> Vht_r2 parsechan parsetype
                           | Some (parse_center1, _) \<Rightarrow> Vht_r3 parsechan parsetype parse_center1)
                        else Vht_r2 parsechan parsetype)))"

subsection \<open>Parser\<close>

definition quote :: string where
  "quote = [CHR 0x27]"

definition msg_ht40 :: "string \<Rightarrow> u32 \<Rightarrow> string" where
  "msg_ht40 sign parsechan = ''requested channel '' @ fmt_u parsechan @ '' as a HT40'' @ sign
     @ '' channel; this does not appear to be a valid channel for 40MHz operation.''"

definition msg_vht80 :: "u32 \<Rightarrow> string" where
  "msg_vht80 parsechan = ''requested channel '' @ fmt_u parsechan
     @ '' as a VHT80 channel; this does not appear to be a valid channel for 80MHz operation, skipping channel''"

definition msg_vht160 :: "u32 \<Rightarrow> string" where
  "msg_vht160 parsechan = ''requested channel '' @ fmt_u parsechan
     @ '' as a VHT160 channel; this does not appear to be a valid channel for 160MHz operation, skipping channel''"

definition msg_attributes :: "string \<Rightarrow> string" where
  "msg_attributes chanstr = ''unable to parse attributes on channel '' @ quote @ chanstr @ quote
     @ '', treating as standard non-HT channel.''"

definition msg_no_channel :: "string \<Rightarrow> string" where
  "msg_no_channel chanstr =
     ''unable to parse any channel information from channel string '' @ quote @ chanstr @ quote"

text \<open>
  The search loops for HT40- and HT40+: every entry whose channel number or frequency is
  \<open>parsechan\<close> and which lacks the flag yields one informational message.
\<close>

fun ht40_search :: "ht_flag \<Rightarrow> string \<Rightarrow> u32 \<Rightarrow> wifi_channel list \<Rightarrow> event list" where
  "ht40_search fl errstr parsechan [] = []"
| "ht40_search fl errstr parsechan (e # es) =
     (if chan e = parsechan \<or> freq e = parsechan then
        (if fl \<notin> flags e
         then Cf_send_message errstr MSGFLAG_INFO # ht40_search fl errstr parsechan es
         else ht40_search fl errstr parsechan es)
      else ht40_search fl errstr parsechan es)"

text \<open>
  The search loops for VHT80 and VHT160, with the flag \<open>fl\<close> and the center field
  \<open>center\<close> of the width: an entry for \<open>parsechan\<close> without the flag ends the parse
  (\<open>None\<close>: the descriptor is freed and \<^verbatim>\<open>NULL\<close> returned), one with the flag
  overwrites the control frequency and the first center frequency; the loop goes on to
  the end of the table.
\<close>

fun vht_search ::
  "ht_flag \<Rightarrow> (wifi_channel \<Rightarrow> u32) \<Rightarrow> u32 \<Rightarrow> wifi_channel list \<Rightarrow> local_channel
     \<Rightarrow> local_channel option" where
  "vht_search fl center parsechan [] ret_localchan = Some ret_localchan"
| "vht_search fl center parsechan (e # es) ret_localchan =
     (if chan e = parsechan \<or> freq e = parsechan then
        (if fl \<notin> flags e then None
         else vht_search fl center parsechan es
                (ret_localchan\<lparr>control_freq := freq e, center_freq1 := center e\<rparr>))
      else vht_search fl center parsechan es ret_localchan)"

text \<open>
  The branch \<^verbatim>\<open>r >= 2\<close> of \<^verbatim>\<open>chantranslate_callback\<close>; \<open>parse_center1\<close> is
  \<open>Some\<close> when the third conversion was done (\<^verbatim>\<open>r == 3\<close>).
\<close>

definition chantranslate_typed ::
  "wifi_channel list \<Rightarrow> string \<Rightarrow> u32 \<Rightarrow> string \<Rightarrow> u32 option
     \<Rightarrow> local_channel option \<times> event list" where
  "chantranslate_typed wifi_ht_channels chanstr parsechan parsetype parse_center1 =
     (let ret_localchan = zero_channel\<lparr>control_freq := parsechan\<rparr> in
      if strcasecmp_eq parsetype ''w5'' then
        (Some (ret_localchan\<lparr>chan_width := NL80211_CHAN_WIDTH_5\<rparr>), [])
      else if strcasecmp_eq parsetype ''w10'' then
        (Some (ret_localchan\<lparr>chan_width := NL80211_CHAN_WIDTH_10\<rparr>), [])
      else if strcasecmp_eq parsetype ''vht80'' then
        (case parse_center1 of
           Some c1 \<Rightarrow>
             (Some (ret_localchan\<lparr>chan_width := NL80211_CHAN_WIDTH_80,
                      center_freq1 := c1, unusual_center1 := 1\<rparr>), [])
         | None \<Rightarrow>
             (case vht_search WIFI_HT_HT80 freq80 parsechan wifi_ht_channels
                     (ret_localchan\<lparr>chan_width := NL80211_CHAN_WIDTH_80\<rparr>) of
                None \<Rightarrow> (None, [Cf_send_message (msg_vht80 parsechan) MSGFLAG_ERROR])
              | Some c \<Rightarrow> (Some c, [])))
      else if strcasecmp_eq parsetype ''vht160'' then
        (case parse_center1 of
           Some c1 \<Rightarrow>
             (Some (ret_localchan\<lparr>chan_width := NL80211_CHAN_WIDTH_160,
                      center_freq1 := c1, unusual_center1 := 1\<rparr>), [])
         | None \<Rightarrow>
             (case vht_search WIFI_HT_HT160 freq160 parsechan wifi_ht_channels
                     (ret_localchan\<lparr>chan_width := NL80211_CHAN_WIDTH_160\<rparr>) of
                None \<Rightarrow> (None, [Cf_send_message (msg_vht160 parsechan) MSGFLAG_ERROR])
              | Some c \<Rightarrow> (Some c, [])))
      else (Some ret_localchan, [Cf_send_message (msg_attributes chanstr) MSGFLAG_INFO]))"

text \<open>
  \<^verbatim>\<open>chantranslate_callback\<close>: the descriptor (\<open>None\<close> for \<^verbatim>\<open>NULL\<close>) and the messages
  sent. The HT40- loop runs over the first \<^verbatim>\<open>MAX_WIFI_HT_CHANNEL\<close> entries, the other
  loops over \<^verbatim>\<open>sizeof(wifi_ht_channels) / sizeof(wifi_channel)\<close> entries, the whole
  table. The texts are given without the bound \<^verbatim>\<open>STATUS_MAX\<close> of \<^verbatim>\<open>snprintf\<close>, and
  the debug line written to \<^verbatim>\<open>stderr\<close> is left out.
\<close>

definition chantranslate_callback ::
  "nat \<Rightarrow> wifi_channel list \<Rightarrow> string \<Rightarrow> local_channel option \<times> event list" where
  "chantranslate_callback max_wifi_ht_channel wifi_ht_channels chanstr =
     (case sscanf_ht40 chanstr of
        Ht40_r2 parsechan modc \<Rightarrow>
          (let ret_localchan = zero_channel\<lparr>control_freq := parsechan\<rparr> in
           if modc = CHR ''-'' then
             (Some (ret_localchan\<lparr>chan_type := NL80211_CHAN_HT40MINUS\<rparr>),
              ht40_search WIFI_HT_HT40MINUS (msg_ht40 ''-'' parsechan) parsechan
                (take max_wifi_ht_channel wifi_ht_channels))
           else if modc = CHR ''+'' then
             (Some (ret_localchan\<lparr>chan_type := NL80211_CHAN_HT40PLUS\<rparr>),
              ht40_search WIFI_HT_HT40PLUS (msg_ht40 ''+'' parsechan) parsechan
                wifi_ht_channels)
           else (Some ret_localchan, [Cf_send_message (msg_attributes chanstr) MSGFLAG_INFO]))
      | _ \<Rightarrow>
          (case sscanf_vht chanstr of
             Vht_r0 \<Rightarrow> (None, [Cf_send_message (msg_no_channel chanstr) MSGFLAG_ERROR])
           | Vht_r1 parsechan \<Rightarrow> (Some (zero_channel\<lparr>control_freq := parsechan\<rparr>), [])
           | Vht_r2 parsechan parsetype \<Rightarrow>
               chantranslate_typed wifi_ht_channels chanstr parsechan parsetype None
           | Vht_r3 parsechan parsetype parse_center1 \<Rightarrow>
               chantranslate_typed wifi_ht_channels chanstr parsechan parsetype
                 (Some parse_center1)))"

subsection \<open>Packet dispatch\<close>

text \<open>\<^verbatim>\<open>struct pcap_pkthdr\<close>: the time stamp (seconds, microseconds) and the lengths.\<close>

record pcap_pkthdr =
  ts :: "int \<times> int"
  caplen :: u32
  len :: u32

text \<open>
  \<^verbatim>\<open>pcap_dispatch_cb\<close>. The loop \<^verbatim>\<open>while (1)\<close> calls \<^verbatim>\<open>cf_send_data\<close> once in each
  round; the list gives what these calls return, in order. The result is the trace of
  the calls made and whether the callback has returned: it is \<open>False\<close> when the loop
  is still running after the last given result.
\<close>

fun pcap_dispatch_cb ::
  "local_wifi \<Rightarrow> pcap_pkthdr \<Rightarrow> u8 list \<Rightarrow> int list \<Rightarrow> event list \<times> bool" where
  "pcap_dispatch_cb local_wifi header data [] = ([], False)"
| "pcap_dispatch_cb local_wifi header data (ret # rets) =
     (let send = Cf_send_data (ts header) (datalink_type local_wifi) (caplen header) data in
      if ret < 0 then
        (case pcap_dispatch_cb local_wifi header data rets of
           (evs, returned) \<Rightarrow>
             (send # Pcap_breakloop (pd local_wifi) # Cf_send_error ''unable to send DATA frame''
                # Cf_handler_spindown # evs, returned))
      else if ret = 0 then
        (case pcap_dispatch_cb local_wifi header data rets of
           (evs, returned) \<Rightarrow> (send # Cf_handler_wait_ringbuffer # evs, returned))
      else ([send], True))"

subsection \<open>Opening: the interface, the UUID and the name of the monitor interface\<close>

type_synonym hwaddr = "u8 \<times> u8 \<times> u8 \<times> u8 \<times> u8 \<times> u8"

datatype rfkill_type = LINUX_RFKILL_TYPE_HARD | LINUX_RFKILL_TYPE_SOFT

text \<open>\<^verbatim>\<open>LINUX_WLEXT_MONITOR\<close>, the wireless extensions mode \<^verbatim>\<open>IW_MODE_MONITOR\<close>.\<close>

definition LINUX_WLEXT_MONITOR :: int where "LINUX_WLEXT_MONITOR = 6"

text \<open>
  What the system and the framework answer during \<^verbatim>\<open>open_callback\<close>. A call that
  fills \<^verbatim>\<open>errstr\<close> and returns a negative value is \<open>Inl\<close> of that text.
  \<^verbatim>\<open>cf_parse_interface\<close> and \<^verbatim>\<open>cf_find_flag\<close> give a length and the text at the
  position they found; \<^verbatim>\<open>getifaddrs\<close> gives the names of the interfaces, \<open>None\<close> when
  it fails; \<^verbatim>\<open>if_nametoindex\<close> is 0 for a name no interface has. The checksum function
  \<^verbatim>\<open>adler32_csum\<close> of the framework is not among the sources and is a parameter too.
\<close>

record sysenv =
  cf_parse_interface :: "string \<Rightarrow> int \<times> string"
  cf_find_flag :: "string \<Rightarrow> string \<Rightarrow> int \<times> string"
  ifconfig_get_hwaddr :: "string \<Rightarrow> string + hwaddr"
  linux_sys_get_rfkill :: "string \<Rightarrow> rfkill_type \<Rightarrow> int"
  linux_sys_clear_rfkill :: "string \<Rightarrow> int"
  iwconfig_get_mode :: "string \<Rightarrow> string + int"
  getifaddrs :: "string list option"
  if_nametoindex :: "string \<Rightarrow> u32"
  if_indextoname :: "u32 \<Rightarrow> string option"
  adler32_csum :: "u8 list \<Rightarrow> u32"

text \<open>\<^verbatim>\<open>snprintf(buf, size, ...)\<close> keeps at most \<open>size - 1\<close> characters.\<close>

definition snprintf_n :: "nat \<Rightarrow> string \<Rightarrow> string" where
  "snprintf_n n s = take (n - 1) s"

definition fmt_d :: "int \<Rightarrow> string" where
  "fmt_d i = (if i < 0 then CHR ''-'' # utoa (nat (- i)) else utoa (nat i))"

definition hex_char :: "nat \<Rightarrow> char" where
  "hex_char d = (if d < 10 then char_of (48 + d) else char_of (55 + d))"

fun xtoa :: "nat \<Rightarrow> string" where
  "xtoa n = (if n < 16 then [hex_char n] else xtoa (n div 16) @ [hex_char (n mod 16)])"

declare xtoa.simps [simp del]

text \<open>The conversions \<^verbatim>\<open>%08X\<close> and \<^verbatim>\<open>%02X\<close>: upper-case hexadecimal, filled with zeros.\<close>

definition fmt_0X :: "nat \<Rightarrow> nat \<Rightarrow> string" where
  "fmt_0X width n = replicate (width - length (xtoa n)) CHR ''0'' @ xtoa n"

text \<open>\<^verbatim>\<open>find_interface_mode_by_mac\<close>: the loop over the interfaces, then the function.\<close>

fun find_interface_loop :: "sysenv \<Rightarrow> string option \<Rightarrow> int \<Rightarrow> hwaddr \<Rightarrow> string list \<Rightarrow> int" where
  "find_interface_loop env ignored_ifname wlmode mac [] = -1"
| "find_interface_loop env ignored_ifname wlmode mac (ifa_name # ifas) =
     (if ignored_ifname = Some ifa_name then
        find_interface_loop env ignored_ifname wlmode mac ifas
      else
        (case ifconfig_get_hwaddr env ifa_name of
           Inl errstr \<Rightarrow> find_interface_loop env ignored_ifname wlmode mac ifas
         | Inr dmac \<Rightarrow>
             if dmac = mac then
               (case iwconfig_get_mode env ifa_name of
                  Inr mode \<Rightarrow>
                    if mode = wlmode then sint (if_nametoindex env ifa_name)
                    else find_interface_loop env ignored_ifname wlmode mac ifas
                | Inl errstr \<Rightarrow> find_interface_loop env ignored_ifname wlmode mac ifas)
             else find_interface_loop env ignored_ifname wlmode mac ifas))"

definition find_interface_mode_by_mac :: "sysenv \<Rightarrow> string option \<Rightarrow> int \<Rightarrow> hwaddr \<Rightarrow> int" where
  "find_interface_mode_by_mac env ignored_ifname wlmode mac =
     (case getifaddrs env of
        None \<Rightarrow> -1
      | Some ifaddr \<Rightarrow> find_interface_loop env ignored_ifname wlmode mac ifaddr)"

text \<open>
  \<^verbatim>\<open>find_next_ifnum\<close>: the loop \<^verbatim>\<open>for (i = 0; i < 100; i++)\<close> over the numbers still
  to try, then the function.
\<close>

fun find_next_ifnum_loop :: "sysenv \<Rightarrow> string \<Rightarrow> nat list \<Rightarrow> int" where
  "find_next_ifnum_loop env basename [] = -1"
| "find_next_ifnum_loop env basename (i # is) =
     (if if_nametoindex env (snprintf_n IFNAMSIZ (basename @ fmt_d (int i))) = 0 then int i
      else find_next_ifnum_loop env basename is)"

definition find_next_ifnum :: "sysenv \<Rightarrow> string \<Rightarrow> int" where
  "find_next_ifnum env basename = find_next_ifnum_loop env basename [0..<100]"

text \<open>The UUID printed in \<^verbatim>\<open>open_callback\<close> from the hardware address \<open>hwaddr\<close>.\<close>

definition open_uuid :: "sysenv \<Rightarrow> hwaddr \<Rightarrow> string" where
  "open_uuid env hwaddr =
     (case hwaddr of
        (h0, h1, h2, h3, h4, h5) \<Rightarrow>
          fmt_0X 8 (unat (adler32_csum env (map of_char ''kismet_cap_linux_wifi'') AND 0xFFFFFFFF))
            @ ''-0000-0000-0000-''
            @ fmt_0X 2 (unat (h0 AND 0xFF)) @ fmt_0X 2 (unat (h1 AND 0xFF))
            @ fmt_0X 2 (unat (h2 AND 0xFF)) @ fmt_0X 2 (unat (h3 AND 0xFF))
            @ fmt_0X 2 (unat (h4 AND 0xFF)) @ fmt_0X 2 (unat (h5 AND 0xFF)))"

text \<open>
  The block of \<^verbatim>\<open>open_callback\<close> that comes up with a monitor name when
  \<^verbatim>\<open>cap_interface\<close> is still \<^verbatim>\<open>NULL\<close>: \<open>Inl\<close> is the message of a \<^verbatim>\<open>return -1\<close>,
  \<open>Inr\<close> the name left in \<^verbatim>\<open>ifnam\<close>.
\<close>

definition open_monitor_name :: "sysenv \<Rightarrow> string \<Rightarrow> string + string" where
  "open_monitor_name env ifname =
     (if length ifname + 3 \<ge> IFNAMSIZ then
        (let ifnum = find_next_ifnum env ''kismon'' in
         if ifnum < 0 then
           Inl (''Could not append '' @ quote @ ''mon'' @ quote @ '' extension to existing interface (''
                  @ ifname @ '') and could not find a kismonX within 100 tries'')
         else Inr (snprintf_n IFNAMSIZ (''kismon'' @ fmt_d ifnum)))
      else
        (let ifnam = snprintf_n IFNAMSIZ (ifname @ ''mon'') in
         case iwconfig_get_mode env ifnam of
           Inr mode \<Rightarrow>
             if mode \<noteq> LINUX_WLEXT_MONITOR then
               Inl (''A monitor vif already exists for interface '' @ quote @ ifname @ quote
                      @ '' ('' @ ifnam @ '') but isn'' @ quote @ ''t in monitor mode, ''
                      @ ''check that NetworkManager isn'' @ quote @ ''t hijacking the ''
                      @ ''interface, delete the false monitor vif, and try again.'')
             else Inr ifnam
         | Inl errstr \<Rightarrow> Inr ifnam))"

text \<open>
  \<^verbatim>\<open>open_callback\<close> from its start to the point where \<^verbatim>\<open>cap_interface\<close> is chosen,
  built without \<^verbatim>\<open>HAVE_LIBNM\<close>. The result is the return value (\<open>Some (-1)\<close> when the
  function has returned, \<open>None\<close> when it goes on to connect to mac80211), the state,
  \<^verbatim>\<open>msg\<close>, \<^verbatim>\<open>*uuid\<close> and the messages sent. The debug line on \<^verbatim>\<open>stderr\<close> is left out.
\<close>

definition open_callback_head ::
  "sysenv \<Rightarrow> local_wifi \<Rightarrow> string \<Rightarrow> string
     \<Rightarrow> int option \<times> local_wifi \<times> string \<times> string option \<times> event list" where
  "open_callback_head env local_wifi definition msg =
     (case cf_parse_interface env definition of
        (placeholder_len, placeholder) \<Rightarrow>
          if placeholder_len \<le> 0 then
            (Some (-1), local_wifi, ''Unable to find interface in definition'', None, [])
          else
            (let ifname = take (nat placeholder_len) placeholder;
                 lw = local_wifi\<lparr>interface := Some ifname\<rparr>
             in case ifconfig_get_hwaddr env ifname of
                  Inl errstr \<Rightarrow>
                    (Some (-1), lw, ''Could not fetch interface address from '' @ quote @ ifname
                       @ quote @ '': '' @ errstr, None, [])
                | Inr hwaddr \<Rightarrow>
                    if linux_sys_get_rfkill env ifname LINUX_RFKILL_TYPE_HARD = 1 then
                      (Some (-1), lw, ''Interface '' @ quote @ ifname @ quote
                         @ '' is set to hard rfkill; check your wireless switch if you have one.'',
                       None, [])
                    else if linux_sys_get_rfkill env ifname LINUX_RFKILL_TYPE_SOFT = 1
                            \<and> linux_sys_clear_rfkill env ifname < 0 then
                      (Some (-1), lw, ''Unable to activate interface '' @ quote @ ifname @ quote
                         @ '' set to soft rfkill'', None, [])
                    else
                      (let evs = (if linux_sys_get_rfkill env ifname LINUX_RFKILL_TYPE_SOFT = 1
                                  then [Cf_send_message (''Removed soft-rfkill and enabled interface ''
                                          @ quote @ ifname @ quote) MSGFLAG_INFO]
                                  else []);
                           uuid = open_uuid env hwaddr
                       in case iwconfig_get_mode env ifname of
                            Inl errstr \<Rightarrow>
                              (Some (-1), lw, ''Unable to get current wireless mode of interface ''
                                 @ quote @ ifname @ quote @ '': '' @ errstr, Some uuid, evs)
                          | Inr mode \<Rightarrow>
                              if mode \<noteq> LINUX_WLEXT_MONITOR then
                                (let lw' =
                                       (case cf_find_flag env ''vif'' definition of
                                          (flag_len, flag) \<Rightarrow>
                                            if flag_len > 0 then
                                              lw\<lparr>cap_interface := Some (take (nat flag_len) flag)\<rparr>
                                            else
                                              (let existing_ifnum =
                                                     find_interface_mode_by_mac env (Some ifname)
                                                       LINUX_WLEXT_MONITOR hwaddr
                                               in if existing_ifnum \<ge> 0 then
                                                    (case if_indextoname env (word_of_int existing_ifnum) of
                                                       Some ifnam \<Rightarrow> lw\<lparr>cap_interface := Some ifnam\<rparr>
                                                     | None \<Rightarrow> lw)
                                                  else lw))
                                 in if cap_interface lw' = None then
                                      (case open_monitor_name env ifname of
                                         Inl m \<Rightarrow> (Some (-1), lw', m, Some uuid, evs)
                                       | Inr ifnam \<Rightarrow>
                                           (None, lw'\<lparr>cap_interface := Some ifnam\<rparr>, msg,
                                            Some uuid, evs))
                                    else (None, lw', msg, Some uuid, evs))
                              else
                                (None, lw\<lparr>cap_interface := Some ifname\<rparr>, msg, Some uuid, evs))))"

subsection \<open>Vocabulary of the statements\<close>

text \<open>The number a string of decimal digits denotes, and as the conversion \<^verbatim>\<open>%u\<close> stores it.\<close>

definition digits_value :: "string \<Rightarrow> nat" where
  "digits_value ds = foldl (\<lambda>a c. 10 * a + digit_val c) 0 ds"

definition chan_number :: "string \<Rightarrow> u32" where
  "chan_number ds = strtoul_u32 False (digits_value ds)"

text \<open>The text does not go on with a digit: a number read before it ends there.\<close>

definition no_digit_ahead :: "string \<Rightarrow> bool" where
  "no_digit_ahead s = (case s of [] \<Rightarrow> True | c # _ \<Rightarrow> \<not> isdigit_c c)"

text \<open>The entries of the table a search loop looks at for the number \<open>parsechan\<close>.\<close>

definition ht_matches :: "u32 \<Rightarrow> wifi_channel list \<Rightarrow> wifi_channel list" where
  "ht_matches parsechan tbl = filter (\<lambda>e. chan e = parsechan \<or> freq e = parsechan) tbl"

text \<open>
  What the round trip needs of the table: an entry whose frequency, or whose channel
  number, is the frequency of an entry is that entry. It holds when no frequency is
  listed twice and no channel number is also a frequency.
\<close>

definition ht_table_wf :: "wifi_channel list \<Rightarrow> bool" where
  "ht_table_wf tbl \<longleftrightarrow>
     (\<forall>e1\<in>set tbl. \<forall>e2\<in>set tbl. (freq e1 = freq e2 \<or> chan e1 = freq e2) \<longrightarrow> e1 = e2)"

text \<open>The calls that set a channel through one of the control backends.\<close>

fun is_backend_call :: "event \<Rightarrow> bool" where
  "is_backend_call (Iwconfig_set_channel ifname f) = True"
| "is_backend_call (Mac80211_set_frequency_cache ifname h fam f w c1 c2) = True"
| "is_backend_call (Mac80211_set_channel_cache ifname h fam f t) = True"
| "is_backend_call e = False"

text \<open>
  The hopping timer of the framework as far as the channel controller sees it: \<open>n\<close>
  calls in a row with the sequence number 0, each on the state the call before left. The
  result is the list of the return values and the last state.
\<close>

fun hop_ticks :: "backend \<Rightarrow> local_wifi \<Rightarrow> local_channel \<Rightarrow> nat \<Rightarrow> int list \<times> local_wifi" where
  "hop_ticks be local_wifi channel 0 = ([], local_wifi)"
| "hop_ticks be local_wifi channel (Suc n) =
     (case chancontrol_callback be local_wifi 0 (Some channel) [] of
        (ret, lw, msg, evs) \<Rightarrow>
          (case hop_ticks be lw channel n of (rets, lw') \<Rightarrow> (ret # rets, lw')))"

text \<open>
  Upper-case hexadecimal digits, the number a string of them denotes, and a text of a
  given length that denotes a given number.
\<close>

definition is_upper_hex :: "char \<Rightarrow> bool" where
  "is_upper_hex c \<longleftrightarrow> isdigit_c c \<or> (65 \<le> (of_char c :: nat) \<and> (of_char c :: nat) \<le> 70)"

definition hex_val :: "char \<Rightarrow> nat" where
  "hex_val c = (if isdigit_c c then of_char c - 48 else of_char c - 55)"

definition hex_value :: "string \<Rightarrow> nat" where
  "hex_value s = foldl (\<lambda>a c. 16 * a + hex_val c) 0 s"

definition is_hex_of :: "nat \<Rightarrow> nat \<Rightarrow> string \<Rightarrow> bool" where
  "is_hex_of width n s \<longleftrightarrow> length s = width \<and> list_all is_upper_hex s \<and> hex_value s = n"

text \<open>
  \<^verbatim>\<open>open_callback\<close> on the definition \<open>defn\<close> reaches the block that comes up with a
  monitor name for the interface \<open>ifname\<close>: the interface is found in the definition,
  its address and its mode can be read, rfkill does not stop the open, the mode is not
  monitor mode, there is no \<^verbatim>\<open>vif\<close> flag, no monitor interface with the same address is
  taken over, and \<^verbatim>\<open>cap_interface\<close> is \<^verbatim>\<open>NULL\<close> as at the start.
\<close>

definition derives_monitor_name :: "sysenv \<Rightarrow> local_wifi \<Rightarrow> string \<Rightarrow> string \<Rightarrow> bool" where
  "derives_monitor_name env local_wifi defn ifname \<longleftrightarrow>
     (case cf_parse_interface env defn of
        (placeholder_len, placeholder) \<Rightarrow>
          0 < placeholder_len \<and> ifname = take (nat placeholder_len) placeholder)
     \<and> (case ifconfig_get_hwaddr env ifname of
          Inl errstr \<Rightarrow> False
        | Inr hwaddr \<Rightarrow>
            find_interface_mode_by_mac env (Some ifname) LINUX_WLEXT_MONITOR hwaddr < 0
            \<or> if_indextoname env
                 (word_of_int (find_interface_mode_by_mac env (Some ifname)
                                 LINUX_WLEXT_MONITOR hwaddr)) = None)
     \<and> linux_sys_get_rfkill env ifname LINUX_RFKILL_TYPE_HARD \<noteq> 1
     \<and> (linux_sys_get_rfkill env ifname LINUX_RFKILL_TYPE_SOFT = 1
          \<longrightarrow> 0 \<le> linux_sys_clear_rfkill env ifname)
     \<and> (case iwconfig_get_mode env ifname of
          Inl errstr \<Rightarrow> False
        | Inr mode \<Rightarrow> mode \<noteq> LINUX_WLEXT_MONITOR)
     \<and> fst (cf_find_flag env ''vif'' defn) \<le> 0
     \<and> cap_interface local_wifi = None"

subsection \<open>Sample inputs\<close>

text \<open>Four entries in the shape of the HT channel table.\<close>

definition sample_ht_channels :: "wifi_channel list" where
  "sample_ht_channels =
     [\<lparr>chan = 1, freq = 2412, flags = {WIFI_HT_HT40PLUS}, freq80 = 0, freq160 = 0\<rparr>,
      \<lparr>chan = 36, freq = 5180, flags = {WIFI_HT_HT40PLUS, WIFI_HT_HT80, WIFI_HT_HT160},
         freq80 = 5210, freq160 = 5250\<rparr>,
      \<lparr>chan = 40, freq = 5200, flags = {WIFI_HT_HT40MINUS, WIFI_HT_HT80, WIFI_HT_HT160},
         freq80 = 5210, freq160 = 5250\<rparr>,
      \<lparr>chan = 165, freq = 5825, flags = {}, freq80 = 0, freq160 = 0\<rparr>]"

text \<open>The state as \<^verbatim>\<open>main\<close> initializes it, and a state as it is after opening \<^verbatim>\<open>wlan0\<close> with a monitor interface.\<close>

definition initial_wifi :: local_wifi where
  "initial_wifi = \<lparr>pd = None, interface = None, cap_interface = None, datalink_type = -1,
     override_dlt = -1, use_mac80211 = 1, mac80211_handle = None, mac80211_cache = None,
     mac80211_family = None, seq_channel_failure = 0, reset_nm_management = 0\<rparr>"

definition sample_wifi :: local_wifi where
  "sample_wifi = \<lparr>pd = Some 1, interface = Some ''wlan0'', cap_interface = Some ''wlan0mon'',
     datalink_type = 127, override_dlt = -1, use_mac80211 = 1, mac80211_handle = Some 2,
     mac80211_cache = Some 3, mac80211_family = Some 4, seq_channel_failure = 0,
     reset_nm_management = 0\<rparr>"

text \<open>Backends that always answer the same, and two channels.\<close>

definition backend_always :: "int \<Rightarrow> string \<Rightarrow> backend" where
  "backend_always r errstr =
     \<lparr>iwconfig_set_channel = (\<lambda>ifname f. (r, errstr)),
      mac80211_set_frequency_cache = (\<lambda>ifname h fam f w c1 c2. (r, errstr)),
      mac80211_set_channel_cache = (\<lambda>ifname h fam f t. (r, errstr))\<rparr>"

definition sample_channel :: local_channel where
  "sample_channel = zero_channel\<lparr>control_freq := 6\<rparr>"

definition sample_vht_channel :: local_channel where
  "sample_vht_channel = zero_channel\<lparr>control_freq := 5180, chan_width := NL80211_CHAN_WIDTH_80,
     center_freq1 := 5210\<rparr>"

text \<open>
  A system with the interfaces \<^verbatim>\<open>lo\<close>, \<^verbatim>\<open>wlan0\<close> (managed mode) and \<^verbatim>\<open>mon0\<close> (monitor
  mode, another address), where \<^verbatim>\<open>kismon0\<close> and \<^verbatim>\<open>kismon1\<close> are names in use; the
  interface of a definition is the text before the first colon, and no flag is given.
  \<open>sample_env_vif\<close> is the same system with the flag \<^verbatim>\<open>vif=mon0\<close>.
\<close>

definition sample_env :: sysenv where
  "sample_env =
     \<lparr>cf_parse_interface = (\<lambda>d. (int (length (takeWhile (\<lambda>c. c \<noteq> CHR '':'') d)), d)),
      cf_find_flag = (\<lambda>flag d. (0, [])),
      ifconfig_get_hwaddr =
        (\<lambda>n. if n = ''lo'' then Inl ''not an ethernet device''
             else if n = ''mon0'' then Inr (0x66, 0x77, 0x88, 0x99, 0xAA, 0xBB)
             else Inr (0x00, 0x11, 0x22, 0x33, 0x44, 0x55)),
      linux_sys_get_rfkill = (\<lambda>n t. 0),
      linux_sys_clear_rfkill = (\<lambda>n. 0),
      iwconfig_get_mode =
        (\<lambda>n. if n = ''mon0'' then Inr 6
             else if n = ''wlan0'' \<or> n = ''wlx00c0ca123456'' then Inr 2
             else Inl ''No such device''),
      getifaddrs = Some [''lo'', ''wlan0'', ''mon0''],
      if_nametoindex =
        (\<lambda>n. if n = ''lo'' then 1 else if n = ''wlan0'' then 2 else if n = ''mon0'' then 3
             else if n = ''kismon0'' then 4 else if n = ''kismon1'' then 5 else 0),
      if_indextoname = (\<lambda>i. None),
      adler32_csum = (\<lambda>bytes. 0x00C0FFEE)\<rparr>"

definition sample_env_vif :: sysenv where
  "sample_env_vif =
     sample_env\<lparr>cf_find_flag :=
       (\<lambda>flag d. if flag = ''vif'' then (4, ''mon0'') else (0, []))\<rparr>"

section \<open>Properties\<close>

subsection \<open>Decimal numbers: printing and reading\<close>

lemma isdigit_digit_char: "d < 10 \<Longrightarrow> isdigit_c (digit_char d)"
  by (simp add: isdigit_c_def digit_char_def)

lemma digit_val_digit_char: "d < 10 \<Longrightarrow> digit_val (digit_char d) = d"
  by (simp add: digit_val_def digit_char_def)

lemma utoa_not_Nil: "utoa n \<noteq> []"
  by (subst utoa.simps) simp

lemma utoa_digits: "list_all isdigit_c (utoa n)"
proof (induction n rule: utoa.induct)
  case (1 n)
  show ?case
  proof (cases "n < 10")
    case True
    then show ?thesis by (subst utoa.simps) (simp add: isdigit_digit_char)
  next
    case False
    with 1 show ?thesis by (subst utoa.simps) (simp add: isdigit_digit_char)
  qed
qed

lemma foldl_digits_utoa: "foldl (\<lambda>a c. 10 * a + digit_val c) 0 (utoa n) = n"
proof (induction n rule: utoa.induct)
  case (1 n)
  show ?case
  proof (cases "n < 10")
    case True
    then show ?thesis by (subst utoa.simps) (simp add: digit_val_digit_char)
  next
    case False
    with 1 show ?thesis by (subst utoa.simps) (simp add: digit_val_digit_char)
  qed
qed

lemma utoa_eval:
  "utoa 0 = [digit_char 0]"
  "utoa (Suc 0) = [digit_char (Suc 0)]"
  "utoa (numeral k) = (if (numeral k :: nat) < 10 then [digit_char (numeral k)]
                       else utoa (numeral k div 10) @ [digit_char (numeral k mod 10)])"
  by (subst utoa.simps, simp)+

lemma digit_char_eval:
  "digit_char 0 = CHR ''0''" "digit_char (Suc 0) = CHR ''1''" "digit_char 2 = CHR ''2''"
  "digit_char 3 = CHR ''3''" "digit_char 4 = CHR ''4''" "digit_char 5 = CHR ''5''"
  "digit_char 6 = CHR ''6''" "digit_char 7 = CHR ''7''" "digit_char 8 = CHR ''8''"
  "digit_char 9 = CHR ''9''"
  by (simp_all add: digit_char_def char_of_eq_iff)

lemma digits_value_utoa: "digits_value (utoa n) = n"
  by (simp add: digits_value_def foldl_digits_utoa)

lemma scan_digits_append:
  "list_all isdigit_c ds \<Longrightarrow> no_digit_ahead rest \<Longrightarrow>
     scan_digits acc (ds @ rest) = (foldl (\<lambda>a c. 10 * a + digit_val c) acc ds, rest)"
proof (induction ds arbitrary: acc)
  case Nil
  then show ?case by (cases rest) (simp_all add: no_digit_ahead_def)
next
  case (Cons c cs)
  then show ?case by simp
qed

lemma digit_not_space: "isdigit_c c \<Longrightarrow> \<not> isspace_c c"
  by (auto simp: isdigit_c_def isspace_c_def)

lemma digit_not_sign: "isdigit_c c \<Longrightarrow> c \<noteq> CHR ''-'' \<and> c \<noteq> CHR ''+''"
  by (auto simp: isdigit_c_def)

lemma scanf_u_digits:
  assumes "ds \<noteq> []" "list_all isdigit_c ds" "no_digit_ahead rest"
  shows "scanf_u (ds @ rest) = Some (chan_number ds, rest)"
proof -
  from assms(1) obtain c cs where ds: "ds = c # cs" by (cases ds) auto
  with assms(2) have c: "isdigit_c c" by simp
  have dw: "dropWhile isspace_c (ds @ rest) = ds @ rest"
    using c by (simp add: ds digit_not_space)
  have sd: "scan_digits 0 (ds @ rest) = (digits_value ds, rest)"
    using scan_digits_append [OF assms(2,3)] by (simp add: digits_value_def)
  show ?thesis
    unfolding scanf_u_def dw Let_def
    using c digit_not_sign [OF c] sd by (simp add: ds chan_number_def)
qed

lemma chan_number_utoa: "chan_number (utoa (unat w)) = w"
proof -
  have "unat w < 2 ^ 32" using unsigned_less [of w, where 'a = nat] by simp
  then have "\<not> unat w > ULONG_MAX" by (simp add: ULONG_MAX_def)
  then show ?thesis by (simp add: chan_number_def strtoul_u32_def digits_value_utoa)
qed

lemma chan_number_wraps:
  "digits_value ds < 2 ^ 64 \<Longrightarrow> unat (chan_number ds) = digits_value ds mod 2 ^ 32"
  by (simp add: chan_number_def strtoul_u32_def ULONG_MAX_def unat_of_nat)

lemma chan_number_small:
  "digits_value ds < 2 ^ 32 \<Longrightarrow> unat (chan_number ds) = digits_value ds"
  by (simp add: chan_number_def strtoul_u32_def ULONG_MAX_def unat_of_nat)

lemma chan_number_saturates:
  "2 ^ 64 \<le> digits_value ds \<Longrightarrow> chan_number ds = 4294967295"
  by (simp add: chan_number_def strtoul_u32_def ULONG_MAX_def)

lemma digits_eval:
  "list_all isdigit_c ''1''" "list_all isdigit_c ''6''" "list_all isdigit_c ''7''"
  "list_all isdigit_c ''36''" "list_all isdigit_c ''100''" "list_all isdigit_c ''165''"
  "list_all isdigit_c ''5250''" "list_all isdigit_c ''4294972476''"
  "list_all isdigit_c ''18446744073709551652''"
  "digits_value ''1'' = 1" "digits_value ''6'' = 6" "digits_value ''7'' = 7"
  "digits_value ''36'' = 36" "digits_value ''100'' = 100" "digits_value ''165'' = 165"
  "digits_value ''5250'' = 5250" "digits_value ''4294972476'' = 4294972476"
  "digits_value ''18446744073709551652'' = 18446744073709551652"
  by (simp_all add: isdigit_c_def digits_value_def digit_val_def)

lemma chan_number_eval:
  "chan_number ''1'' = 1" "chan_number ''6'' = 6" "chan_number ''7'' = 7"
  "chan_number ''36'' = 36" "chan_number ''100'' = 100" "chan_number ''165'' = 165"
  "chan_number ''5250'' = 5250" "chan_number ''4294972476'' = 5180"
  "chan_number ''18446744073709551652'' = 4294967295"
  by (simp_all add: chan_number_def digits_eval strtoul_u32_def ULONG_MAX_def)

lemma scanf_u_fmt_u:
  "no_digit_ahead rest \<Longrightarrow> scanf_u (fmt_u w @ rest) = Some (w, rest)"
  unfolding fmt_u_def
  by (simp add: scanf_u_digits utoa_not_Nil utoa_digits chan_number_utoa)

subsection \<open>Channel grammar\<close>

lemma vht_search_char:
  "vht_search fl center pc es rc =
     (let ms = ht_matches pc es in
      if \<exists>e\<in>set ms. fl \<notin> flags e then None
      else Some (if ms = [] then rc
                 else rc\<lparr>control_freq := freq (last ms), center_freq1 := center (last ms)\<rparr>))"
  by (induction es arbitrary: rc) (auto simp: ht_matches_def Let_def)

lemma sscanf_ht40_digits:
  assumes "ds \<noteq> []" "list_all isdigit_c ds" "no_digit_ahead rest"
  shows "sscanf_ht40 (ds @ rest) =
           (if take 4 rest = ''HT40'' then
              (case drop 4 rest of [] \<Rightarrow> Ht40_r1 (chan_number ds)
               | modc # _ \<Rightarrow> Ht40_r2 (chan_number ds) modc)
            else Ht40_r1 (chan_number ds))"
  by (simp add: sscanf_ht40_def scanf_u_digits [OF assms])

lemma sscanf_vht_digits:
  assumes "ds \<noteq> []" "list_all isdigit_c ds" "no_digit_ahead rest"
  shows "sscanf_vht (ds @ rest) =
          (let parsechan = chan_number ds;
               parsetype = takeWhile (\<lambda>c. c \<noteq> CHR ''-'') (take 15 rest)
           in if parsetype = [] then Vht_r1 parsechan
              else (case drop (length parsetype) rest of
                      [] \<Rightarrow> Vht_r2 parsechan parsetype
                    | c # s' \<Rightarrow>
                        if c = CHR ''-'' then
                          (case scanf_u s' of
                             None \<Rightarrow> Vht_r2 parsechan parsetype
                           | Some (parse_center1, _) \<Rightarrow> Vht_r3 parsechan parsetype parse_center1)
                        else Vht_r2 parsechan parsetype))"
  by (simp add: sscanf_vht_def scanf_u_digits [OF assms] Let_def)

lemma sscanf_ht40_fmt_u:
  "no_digit_ahead rest \<Longrightarrow> sscanf_ht40 (fmt_u w @ rest) =
           (if take 4 rest = ''HT40'' then
              (case drop 4 rest of [] \<Rightarrow> Ht40_r1 w | modc # _ \<Rightarrow> Ht40_r2 w modc)
            else Ht40_r1 w)"
  by (simp add: sscanf_ht40_def scanf_u_fmt_u)

lemma sscanf_vht_fmt_u:
  "no_digit_ahead rest \<Longrightarrow> sscanf_vht (fmt_u w @ rest) =
          (let parsetype = takeWhile (\<lambda>c. c \<noteq> CHR ''-'') (take 15 rest)
           in if parsetype = [] then Vht_r1 w
              else (case drop (length parsetype) rest of
                      [] \<Rightarrow> Vht_r2 w parsetype
                    | c # s' \<Rightarrow>
                        if c = CHR ''-'' then
                          (case scanf_u s' of
                             None \<Rightarrow> Vht_r2 w parsetype
                           | Some (parse_center1, _) \<Rightarrow> Vht_r3 w parsetype parse_center1)
                        else Vht_r2 w parsetype))"
  by (simp add: sscanf_vht_def scanf_u_fmt_u Let_def)

lemma no_digit_ahead_simps [simp]:
  "no_digit_ahead []" "no_digit_ahead (c # cs) \<longleftrightarrow> \<not> isdigit_c c"
  by (simp_all add: no_digit_ahead_def)

lemma strcasecmp_lits:
  "strcasecmp_eq ''W5'' ''w5''" "\<not> strcasecmp_eq ''W10'' ''w5''" "strcasecmp_eq ''W10'' ''w10''"
  "\<not> strcasecmp_eq ''VHT80'' ''w5''" "\<not> strcasecmp_eq ''VHT80'' ''w10''" "strcasecmp_eq ''VHT80'' ''vht80''"
  "\<not> strcasecmp_eq ''VHT160'' ''w5''" "\<not> strcasecmp_eq ''VHT160'' ''w10''"
  "\<not> strcasecmp_eq ''VHT160'' ''vht80''" "strcasecmp_eq ''VHT160'' ''vht160''"
  by (simp_all add: strcasecmp_eq_def tolower_c_def char_of_eq_iff)

lemma rt_bare:
  "fst (chantranslate_callback mx tbl (fmt_u pc)) = Some (zero_channel\<lparr>control_freq := pc\<rparr>)"
  using sscanf_ht40_fmt_u [of "[]" pc] sscanf_vht_fmt_u [of "[]" pc]
  by (simp add: chantranslate_callback_def isdigit_c_def)

lemma rt_minus:
  "fst (chantranslate_callback mx tbl (fmt_u pc @ ''HT40-'')) =
     Some (zero_channel\<lparr>control_freq := pc, chan_type := NL80211_CHAN_HT40MINUS\<rparr>)"
  using sscanf_ht40_fmt_u [of "''HT40-''" pc]
  by (simp add: chantranslate_callback_def isdigit_c_def)

lemma rt_plus:
  "fst (chantranslate_callback mx tbl (fmt_u pc @ ''HT40+'')) =
     Some (zero_channel\<lparr>control_freq := pc, chan_type := NL80211_CHAN_HT40PLUS\<rparr>)"
  using sscanf_ht40_fmt_u [of "''HT40+''" pc]
  by (simp add: chantranslate_callback_def isdigit_c_def)

lemma rt_w5:
  "fst (chantranslate_callback mx tbl (fmt_u pc @ ''W5'')) =
     Some (zero_channel\<lparr>control_freq := pc, chan_width := NL80211_CHAN_WIDTH_5\<rparr>)"
  using sscanf_ht40_fmt_u [of "''W5''" pc] sscanf_vht_fmt_u [of "''W5''" pc]
  by (simp add: chantranslate_callback_def chantranslate_typed_def isdigit_c_def strcasecmp_lits)

lemma rt_w10:
  "fst (chantranslate_callback mx tbl (fmt_u pc @ ''W10'')) =
     Some (zero_channel\<lparr>control_freq := pc, chan_width := NL80211_CHAN_WIDTH_10\<rparr>)"
  using sscanf_ht40_fmt_u [of "''W10''" pc] sscanf_vht_fmt_u [of "''W10''" pc]
  by (simp add: chantranslate_callback_def chantranslate_typed_def isdigit_c_def strcasecmp_lits)

lemma rt_vht80_center:
  "fst (chantranslate_callback mx tbl (fmt_u pc @ ''VHT80-'' @ fmt_u c1)) =
     Some (zero_channel\<lparr>control_freq := pc, chan_width := NL80211_CHAN_WIDTH_80,
             center_freq1 := c1, unusual_center1 := 1\<rparr>)"
  using sscanf_ht40_fmt_u [of "''VHT80-'' @ fmt_u c1" pc] sscanf_vht_fmt_u [of "''VHT80-'' @ fmt_u c1" pc]
    scanf_u_fmt_u [of "[]" c1]
  by (simp add: chantranslate_callback_def chantranslate_typed_def isdigit_c_def strcasecmp_lits)

lemma rt_vht160_center:
  "fst (chantranslate_callback mx tbl (fmt_u pc @ ''VHT160-'' @ fmt_u c1)) =
     Some (zero_channel\<lparr>control_freq := pc, chan_width := NL80211_CHAN_WIDTH_160,
             center_freq1 := c1, unusual_center1 := 1\<rparr>)"
  using sscanf_ht40_fmt_u [of "''VHT160-'' @ fmt_u c1" pc] sscanf_vht_fmt_u [of "''VHT160-'' @ fmt_u c1" pc]
    scanf_u_fmt_u [of "[]" c1]
  by (simp add: chantranslate_callback_def chantranslate_typed_def isdigit_c_def strcasecmp_lits)


lemma vht_search_fields:
  assumes "vht_search fl center pc tbl rc = Some d"
  shows "chan_type d = chan_type rc \<and> chan_width d = chan_width rc
         \<and> unusual_center1 d = unusual_center1 rc \<and> center_freq2 d = center_freq2 rc"
  using assms by (auto simp: vht_search_char Let_def split: if_splits)

lemma ht_matches_of_freq:
  assumes wf: "ht_table_wf tbl" and L: "L \<in> set tbl"
  shows "ht_matches (freq L) tbl \<noteq> [] \<and> set (ht_matches (freq L) tbl) = {L}"
proof -
  have in_ms: "L \<in> set (ht_matches (freq L) tbl)"
    using L by (simp add: ht_matches_def)
  have "e = L" if "e \<in> set (ht_matches (freq L) tbl)" for e
  proof -
    from that have "e \<in> set tbl" and "chan e = freq L \<or> freq e = freq L"
      by (auto simp: ht_matches_def)
    with wf L show ?thesis unfolding ht_table_wf_def by blast
  qed
  with in_ms show ?thesis by auto
qed

lemma last_of_singleton_set:
  assumes "xs \<noteq> []" "set xs = {a}"
  shows "last xs = a"
  using assms last_in_set by fastforce

lemma rt_vht_tbl:
  assumes wf: "ht_table_wf tbl"
    and d: "vht_search fl center pc tbl (zero_channel\<lparr>control_freq := pc, chan_width := W\<rparr>) = Some d"
  shows "vht_search fl center (control_freq d) tbl
           (zero_channel\<lparr>control_freq := control_freq d, chan_width := W\<rparr>) = Some d"
proof (cases "ht_matches pc tbl = []")
  case True
  with d have "d = zero_channel\<lparr>control_freq := pc, chan_width := W\<rparr>"
    by (simp add: vht_search_char Let_def split: if_splits)
  then have "control_freq d = pc" by simp
  with d show ?thesis using \<open>d = _\<close> by simp
next
  case False
  define L where "L = last (ht_matches pc tbl)"
  have Lms: "L \<in> set (ht_matches pc tbl)"
    using False by (simp add: L_def)
  then have Ltbl: "L \<in> set tbl" by (simp add: ht_matches_def)
  from d False have flags_ok: "\<forall>e\<in>set (ht_matches pc tbl). fl \<in> flags e"
    and d_eq: "d = zero_channel\<lparr>control_freq := freq L, chan_width := W, center_freq1 := center L\<rparr>"
    by (auto simp: vht_search_char Let_def L_def split: if_splits)
  have cf: "control_freq d = freq L" by (simp add: d_eq)
  from ht_matches_of_freq [OF wf Ltbl]
  have ne: "ht_matches (freq L) tbl \<noteq> []" and st: "set (ht_matches (freq L) tbl) = {L}"
    by simp_all
  have lst: "last (ht_matches (freq L) tbl) = L"
    by (rule last_of_singleton_set [OF ne st])
  have flL: "fl \<in> flags L" using flags_ok Lms by blast
  show ?thesis
    by (simp add: vht_search_char Let_def cf ne st lst flL d_eq)
qed

lemma parse_shapes:
  assumes "chantranslate_callback mx tbl s = (Some d, evs)"
  shows "(\<exists>pc. d = zero_channel\<lparr>control_freq := pc\<rparr>)
       \<or> (\<exists>pc. d = zero_channel\<lparr>control_freq := pc, chan_type := NL80211_CHAN_HT40MINUS\<rparr>)
       \<or> (\<exists>pc. d = zero_channel\<lparr>control_freq := pc, chan_type := NL80211_CHAN_HT40PLUS\<rparr>)
       \<or> (\<exists>pc. d = zero_channel\<lparr>control_freq := pc, chan_width := NL80211_CHAN_WIDTH_5\<rparr>)
       \<or> (\<exists>pc. d = zero_channel\<lparr>control_freq := pc, chan_width := NL80211_CHAN_WIDTH_10\<rparr>)
       \<or> (\<exists>pc c1. d = zero_channel\<lparr>control_freq := pc, chan_width := NL80211_CHAN_WIDTH_80,
                          center_freq1 := c1, unusual_center1 := 1\<rparr>)
       \<or> (\<exists>pc c1. d = zero_channel\<lparr>control_freq := pc, chan_width := NL80211_CHAN_WIDTH_160,
                          center_freq1 := c1, unusual_center1 := 1\<rparr>)
       \<or> (\<exists>pc. vht_search WIFI_HT_HT80 freq80 pc tbl
                   (zero_channel\<lparr>control_freq := pc, chan_width := NL80211_CHAN_WIDTH_80\<rparr>) = Some d)
       \<or> (\<exists>pc. vht_search WIFI_HT_HT160 freq160 pc tbl
                   (zero_channel\<lparr>control_freq := pc, chan_width := NL80211_CHAN_WIDTH_160\<rparr>) = Some d)"
  using assms
  by (auto simp: chantranslate_callback_def chantranslate_typed_def Let_def
           split: ht40_scan.splits vht_scan.splits if_splits option.splits)


lemmas nl80211_defs = NL80211_CHAN_HT40MINUS_def NL80211_CHAN_HT40PLUS_def
  NL80211_CHAN_WIDTH_5_def NL80211_CHAN_WIDTH_10_def NL80211_CHAN_WIDTH_80_def
  NL80211_CHAN_WIDTH_160_def

lemma rt_vht80_tbl:
  assumes wf: "ht_table_wf tbl"
    and d: "vht_search WIFI_HT_HT80 freq80 pc tbl
              (zero_channel\<lparr>control_freq := pc, chan_width := NL80211_CHAN_WIDTH_80\<rparr>) = Some d"
  shows "fst (chantranslate_callback mx tbl (local_channel_to_str d)) = Some d"
proof -
  from vht_search_fields [OF d]
  have str: "local_channel_to_str d = fmt_u (control_freq d) @ ''VHT80''"
    by (simp add: local_channel_to_str_def zero_channel_def nl80211_defs)
  have s1: "sscanf_ht40 (fmt_u (control_freq d) @ ''VHT80'') = Ht40_r1 (control_freq d)"
    by (simp add: sscanf_ht40_fmt_u isdigit_c_def)
  have s2: "sscanf_vht (fmt_u (control_freq d) @ ''VHT80'') = Vht_r2 (control_freq d) ''VHT80''"
    by (simp add: sscanf_vht_fmt_u isdigit_c_def)
  show ?thesis
    unfolding str
    by (simp add: chantranslate_callback_def chantranslate_typed_def s1 s2 strcasecmp_lits
          rt_vht_tbl [OF wf d])
qed

lemma rt_vht160_tbl:
  assumes wf: "ht_table_wf tbl"
    and d: "vht_search WIFI_HT_HT160 freq160 pc tbl
              (zero_channel\<lparr>control_freq := pc, chan_width := NL80211_CHAN_WIDTH_160\<rparr>) = Some d"
  shows "fst (chantranslate_callback mx tbl (local_channel_to_str d)) = Some d"
proof -
  from vht_search_fields [OF d]
  have str: "local_channel_to_str d = fmt_u (control_freq d) @ ''VHT160''"
    by (simp add: local_channel_to_str_def zero_channel_def nl80211_defs)
  have s1: "sscanf_ht40 (fmt_u (control_freq d) @ ''VHT160'') = Ht40_r1 (control_freq d)"
    by (simp add: sscanf_ht40_fmt_u isdigit_c_def)
  have s2: "sscanf_vht (fmt_u (control_freq d) @ ''VHT160'') = Vht_r2 (control_freq d) ''VHT160''"
    by (simp add: sscanf_vht_fmt_u isdigit_c_def)
  show ?thesis
    unfolding str
    by (simp add: chantranslate_callback_def chantranslate_typed_def s1 s2 strcasecmp_lits
          rt_vht_tbl [OF wf d])
qed

lemma to_str_shapes:
  "local_channel_to_str (zero_channel\<lparr>control_freq := pc\<rparr>) = fmt_u pc"
  "local_channel_to_str (zero_channel\<lparr>control_freq := pc, chan_type := NL80211_CHAN_HT40MINUS\<rparr>)
     = fmt_u pc @ ''HT40-''"
  "local_channel_to_str (zero_channel\<lparr>control_freq := pc, chan_type := NL80211_CHAN_HT40PLUS\<rparr>)
     = fmt_u pc @ ''HT40+''"
  "local_channel_to_str (zero_channel\<lparr>control_freq := pc, chan_width := NL80211_CHAN_WIDTH_5\<rparr>)
     = fmt_u pc @ ''W5''"
  "local_channel_to_str (zero_channel\<lparr>control_freq := pc, chan_width := NL80211_CHAN_WIDTH_10\<rparr>)
     = fmt_u pc @ ''W10''"
  "local_channel_to_str (zero_channel\<lparr>control_freq := pc, chan_width := NL80211_CHAN_WIDTH_80,
       center_freq1 := c1, unusual_center1 := 1\<rparr>) = fmt_u pc @ ''VHT80-'' @ fmt_u c1"
  "local_channel_to_str (zero_channel\<lparr>control_freq := pc, chan_width := NL80211_CHAN_WIDTH_160,
       center_freq1 := c1, unusual_center1 := 1\<rparr>) = fmt_u pc @ ''VHT160-'' @ fmt_u c1"
  by (simp_all add: local_channel_to_str_def zero_channel_def nl80211_defs)

text \<open>
  C3. For every descriptor \<open>d\<close> the parser \<^verbatim>\<open>chantranslate_callback\<close> returns, parsing
  the string the serializer \<^verbatim>\<open>local_channel_to_str\<close> writes for \<open>d\<close> returns \<open>d\<close>
  again: the two descriptors are equal as records, so in all six fields. The table is
  taken to be well formed in the sense of \<open>ht_table_wf\<close>.
\<close>

theorem chantranslate_roundtrip:
  assumes wf: "ht_table_wf tbl"
    and p: "chantranslate_callback mx tbl s = (Some d, evs)"
  shows "fst (chantranslate_callback mx tbl (local_channel_to_str d)) = Some d"
proof -
  note shapes = parse_shapes [OF p]
  then consider
      (bare) pc where "d = zero_channel\<lparr>control_freq := pc\<rparr>"
    | (minus) pc where "d = zero_channel\<lparr>control_freq := pc, chan_type := NL80211_CHAN_HT40MINUS\<rparr>"
    | (plus) pc where "d = zero_channel\<lparr>control_freq := pc, chan_type := NL80211_CHAN_HT40PLUS\<rparr>"
    | (w5) pc where "d = zero_channel\<lparr>control_freq := pc, chan_width := NL80211_CHAN_WIDTH_5\<rparr>"
    | (w10) pc where "d = zero_channel\<lparr>control_freq := pc, chan_width := NL80211_CHAN_WIDTH_10\<rparr>"
    | (c80) pc c1 where "d = zero_channel\<lparr>control_freq := pc, chan_width := NL80211_CHAN_WIDTH_80,
                          center_freq1 := c1, unusual_center1 := 1\<rparr>"
    | (c160) pc c1 where "d = zero_channel\<lparr>control_freq := pc, chan_width := NL80211_CHAN_WIDTH_160,
                          center_freq1 := c1, unusual_center1 := 1\<rparr>"
    | (t80) pc where "vht_search WIFI_HT_HT80 freq80 pc tbl
                   (zero_channel\<lparr>control_freq := pc, chan_width := NL80211_CHAN_WIDTH_80\<rparr>) = Some d"
    | (t160) pc where "vht_search WIFI_HT_HT160 freq160 pc tbl
                   (zero_channel\<lparr>control_freq := pc, chan_width := NL80211_CHAN_WIDTH_160\<rparr>) = Some d"
    by blast
  then show ?thesis
  proof cases
    case bare
    then show ?thesis by (simp only: to_str_shapes rt_bare)
  next
    case minus
    then show ?thesis by (simp only: to_str_shapes rt_minus)
  next
    case plus
    then show ?thesis by (simp only: to_str_shapes rt_plus)
  next
    case w5
    then show ?thesis by (simp only: to_str_shapes rt_w5)
  next
    case w10
    then show ?thesis by (simp only: to_str_shapes rt_w10)
  next
    case c80
    then show ?thesis by (simp only: to_str_shapes rt_vht80_center)
  next
    case c160
    then show ?thesis by (simp only: to_str_shapes rt_vht160_center)
  next
    case t80
    then show ?thesis by (rule rt_vht80_tbl [OF wf])
  next
    case t160
    then show ?thesis by (rule rt_vht160_tbl [OF wf])
  qed
qed

lemma sample_wf: "ht_table_wf sample_ht_channels"
  by (simp add: ht_table_wf_def sample_ht_channels_def)

lemma sample_scans:
  "sscanf_ht40 ''36VHT80'' = Ht40_r1 36" "sscanf_vht ''36VHT80'' = Vht_r2 36 ''VHT80''"
  "sscanf_ht40 ''6Q'' = Ht40_r1 6" "sscanf_vht ''6Q'' = Vht_r2 6 ''Q''"
  "sscanf_ht40 ''6HT40x'' = Ht40_r2 6 CHR ''x''"
  "sscanf_ht40 ''1HT40-'' = Ht40_r2 1 CHR ''-''"
  using sscanf_ht40_digits [of "''36''" "''VHT80''"] sscanf_vht_digits [of "''36''" "''VHT80''"]
    sscanf_ht40_digits [of "''6''" "''Q''"] sscanf_vht_digits [of "''6''" "''Q''"]
    sscanf_ht40_digits [of "''6''" "''HT40x''"] sscanf_ht40_digits [of "''1''" "''HT40-''"]
  by (simp_all add: digits_eval chan_number_eval isdigit_c_def)

lemma sample_no_scan:
  "sscanf_ht40 ''garbage'' = Ht40_r0" "sscanf_vht ''garbage'' = Vht_r0"
  by (simp_all add: sscanf_ht40_def sscanf_vht_def scanf_u_def isspace_c_def isdigit_c_def)

lemma sample_parse: "chantranslate_callback 4 sample_ht_channels ''36VHT80'' =
   (Some \<lparr>control_freq = 5180, chan_type = 0, chan_width = 3, unusual_center1 = 0,
           center_freq1 = 5210, center_freq2 = 0\<rparr>, [])"
  by (simp add: chantranslate_callback_def chantranslate_typed_def sample_scans
        strcasecmp_eq_def tolower_c_def char_of_eq_iff sample_ht_channels_def
        zero_channel_def nl80211_defs)

lemma sample_str: "local_channel_to_str \<lparr>control_freq = 5180, chan_type = 0, chan_width = 3, unusual_center1 = 0,
           center_freq1 = 5210, center_freq2 = 0\<rparr> = ''5180VHT80''"
  by (simp add: local_channel_to_str_def fmt_u_def utoa_eval digit_char_eval nl80211_defs)

theorem chantranslate_roundtrip_witness:
  "ht_table_wf sample_ht_channels
   \<and> chantranslate_callback 4 sample_ht_channels ''36VHT80'' =
       (Some \<lparr>control_freq = 5180, chan_type = 0, chan_width = 3, unusual_center1 = 0,
           center_freq1 = 5210, center_freq2 = 0\<rparr>, [])
   \<and> fst (chantranslate_callback 4 sample_ht_channels ''5180VHT80'') =
       Some \<lparr>control_freq = 5180, chan_type = 0, chan_width = 3, unusual_center1 = 0,
           center_freq1 = 5210, center_freq2 = 0\<rparr>"
  using chantranslate_roundtrip [OF sample_wf sample_parse] sample_wf sample_parse
  by (simp add: sample_str)

lemma tolower_eval:
  "tolower_c (CHR ''-'') = CHR ''-''" "tolower_c (CHR ''H'') = CHR ''h''"
  by (simp_all add: tolower_c_def char_of_eq_iff)

lemma isdigit_tolower: "isdigit_c (tolower_c c) \<longleftrightarrow> isdigit_c c"
  by (auto simp: tolower_c_def isdigit_c_def)

text \<open>A suffix that equals a lower-case word without \<^verbatim>\<open>-\<close>, case aside.\<close>

lemma casefold_suffix:
  assumes eq: "strcasecmp_eq sfx w" and w: "map tolower_c w = w" "w \<noteq> []"
    "CHR ''-'' \<notin> set w" "\<not> isdigit_c (hd w)" "length w \<le> 15" "hd w \<noteq> CHR ''h''"
  shows "sfx \<noteq> []" "CHR ''-'' \<notin> set sfx" "\<not> isdigit_c (hd sfx)" "length sfx \<le> 15"
    "hd sfx \<noteq> CHR ''H''" "map tolower_c sfx = w"
proof -
  from eq w(1) show m: "map tolower_c sfx = w" by (simp add: strcasecmp_eq_def)
  from m w(2) show ne: "sfx \<noteq> []" by auto
  show "CHR ''-'' \<notin> set sfx"
  proof
    assume "CHR ''-'' \<in> set sfx"
    then have "tolower_c (CHR ''-'') \<in> tolower_c ` set sfx" by (rule imageI)
    then have "tolower_c (CHR ''-'') \<in> set (map tolower_c sfx)" by simp
    then show False using m w(3) by (simp add: tolower_eval)
  qed
  from m ne have hd: "tolower_c (hd sfx) = hd w" by (cases sfx) auto
  with w(4) show "\<not> isdigit_c (hd sfx)" using isdigit_tolower [of "hd sfx"] by simp
  have "length (map tolower_c sfx) = length sfx" by simp
  with m w(5) show "length sfx \<le> 15" by simp
  show "hd sfx \<noteq> CHR ''H''"
  proof
    assume "hd sfx = CHR ''H''"
    with hd have "hd w = CHR ''h''" by (simp add: tolower_eval)
    with w(6) show False by simp
  qed
qed

lemma takeWhile_no_dash:
  assumes "CHR ''-'' \<notin> set sfx" "length sfx \<le> 15"
  shows "takeWhile (\<lambda>c. c \<noteq> CHR ''-'') (take 15 (sfx @ CHR ''-'' # rest)) = sfx"
    and "takeWhile (\<lambda>c. c \<noteq> CHR ''-'') (take 15 sfx) = sfx"
proof -
  have all: "\<forall>c\<in>set sfx. c \<noteq> CHR ''-''" using assms(1) by auto
  have "take 15 (sfx @ CHR ''-'' # rest) = sfx @ take (15 - length sfx) (CHR ''-'' # rest)"
    using assms(2) by simp
  moreover have "takeWhile (\<lambda>c. c \<noteq> CHR ''-'') (take (15 - length sfx) (CHR ''-'' # rest)) = []"
    by (cases "15 - length sfx") simp_all
  ultimately show "takeWhile (\<lambda>c. c \<noteq> CHR ''-'') (take 15 (sfx @ CHR ''-'' # rest)) = sfx"
    using all by (simp add: takeWhile_append2)
  show "takeWhile (\<lambda>c. c \<noteq> CHR ''-'') (take 15 sfx) = sfx"
    using all assms(2) by (simp add: takeWhile_eq_all_conv)
qed

text \<open>The two scans on a number followed by such a suffix, without and with a center.\<close>

lemma scans_word:
  assumes ds: "ds \<noteq> []" "list_all isdigit_c ds"
    and sfx: "sfx \<noteq> []" "CHR ''-'' \<notin> set sfx" "\<not> isdigit_c (hd sfx)" "length sfx \<le> 15"
      "hd sfx \<noteq> CHR ''H''"
  shows "sscanf_ht40 (ds @ sfx) = Ht40_r1 (chan_number ds)"
    and "sscanf_vht (ds @ sfx) = Vht_r2 (chan_number ds) sfx"
    and "sscanf_ht40 (ds @ sfx @ CHR ''-'' # rest) = Ht40_r1 (chan_number ds)"
    and "cs \<noteq> [] \<Longrightarrow> list_all isdigit_c cs \<Longrightarrow>
           sscanf_vht (ds @ sfx @ CHR ''-'' # cs) = Vht_r3 (chan_number ds) sfx (chan_number cs)"
proof -
  from sfx(1) obtain a as where sa: "sfx = a # as" by (cases sfx) auto
  with sfx have a: "\<not> isdigit_c a" "a \<noteq> CHR ''H''" by simp_all
  have nda: "no_digit_ahead sfx" "no_digit_ahead (sfx @ CHR ''-'' # rest)" for rest
    using a by (simp_all add: sa)
  have t4: "take 4 sfx \<noteq> ''HT40''" "take 4 (sfx @ CHR ''-'' # rest) \<noteq> ''HT40''" for rest
    using a by (simp_all add: sa)
  show "sscanf_ht40 (ds @ sfx) = Ht40_r1 (chan_number ds)"
    unfolding sscanf_ht40_digits [OF ds nda(1)] using t4(1) by (simp add: chan_number_def)
  show "sscanf_ht40 (ds @ sfx @ CHR ''-'' # rest) = Ht40_r1 (chan_number ds)"
    unfolding sscanf_ht40_digits [OF ds nda(2)] using t4(2) by (simp add: chan_number_def)
  show "sscanf_vht (ds @ sfx) = Vht_r2 (chan_number ds) sfx"
    unfolding sscanf_vht_digits [OF ds nda(1)] takeWhile_no_dash(2) [OF sfx(2) sfx(4)]
    using sfx(1) by (simp add: chan_number_def Let_def)
  show "sscanf_vht (ds @ sfx @ CHR ''-'' # cs) = Vht_r3 (chan_number ds) sfx (chan_number cs)"
    if cs: "cs \<noteq> []" "list_all isdigit_c cs"
  proof -
    have "scanf_u cs = Some (chan_number cs, [])"
      using scanf_u_digits [OF cs, of "[]"] by (simp add: chan_number_def)
    then show ?thesis
      unfolding sscanf_vht_digits [OF ds nda(2)] takeWhile_no_dash(1) [OF sfx(2) sfx(4)]
      using sfx(1) by (simp add: chan_number_def Let_def)
  qed
qed

lemma word_lits:
  "map tolower_c ''vht80'' = ''vht80''" "map tolower_c ''vht160'' = ''vht160''"
  "map tolower_c ''w5'' = ''w5''" "map tolower_c ''w10'' = ''w10''"
  by (simp_all add: tolower_c_def)

lemma vht80_suffix:
  assumes "strcasecmp_eq sfx ''vht80''"
  shows "sfx \<noteq> []" "CHR ''-'' \<notin> set sfx" "\<not> isdigit_c (hd sfx)" "length sfx \<le> 15"
    "hd sfx \<noteq> CHR ''H''" "\<not> strcasecmp_eq sfx ''w5''" "\<not> strcasecmp_eq sfx ''w10''"
proof -
  have c: "map tolower_c sfx = ''vht80''"
    using casefold_suffix(6) [OF assms] by (simp add: tolower_c_def isdigit_c_def)
  show "sfx \<noteq> []" "CHR ''-'' \<notin> set sfx" "\<not> isdigit_c (hd sfx)" "length sfx \<le> 15"
    "hd sfx \<noteq> CHR ''H''"
    using casefold_suffix(1-5) [OF assms] by (simp_all add: tolower_c_def isdigit_c_def)
  show "\<not> strcasecmp_eq sfx ''w5''" "\<not> strcasecmp_eq sfx ''w10''"
    unfolding strcasecmp_eq_def c word_lits by simp_all
qed

lemma vht160_suffix:
  assumes "strcasecmp_eq sfx ''vht160''"
  shows "sfx \<noteq> []" "CHR ''-'' \<notin> set sfx" "\<not> isdigit_c (hd sfx)" "length sfx \<le> 15"
    "hd sfx \<noteq> CHR ''H''" "\<not> strcasecmp_eq sfx ''w5''" "\<not> strcasecmp_eq sfx ''w10''"
    "\<not> strcasecmp_eq sfx ''vht80''"
proof -
  have c: "map tolower_c sfx = ''vht160''"
    using casefold_suffix(6) [OF assms] by (simp add: tolower_c_def isdigit_c_def)
  show "sfx \<noteq> []" "CHR ''-'' \<notin> set sfx" "\<not> isdigit_c (hd sfx)" "length sfx \<le> 15"
    "hd sfx \<noteq> CHR ''H''"
    using casefold_suffix(1-5) [OF assms] by (simp_all add: tolower_c_def isdigit_c_def)
  show "\<not> strcasecmp_eq sfx ''w5''" "\<not> strcasecmp_eq sfx ''w10''" "\<not> strcasecmp_eq sfx ''vht80''"
    unfolding strcasecmp_eq_def c word_lits by simp_all
qed

lemma parse_vht80_table:
  assumes ds: "ds \<noteq> []" "list_all isdigit_c ds" and sfx: "strcasecmp_eq sfx ''vht80''"
  shows "chantranslate_callback mx tbl (ds @ sfx) =
           (let ms = ht_matches (chan_number ds) tbl in
            if \<exists>e\<in>set ms. WIFI_HT_HT80 \<notin> flags e
            then (None, [Cf_send_message (msg_vht80 (chan_number ds)) MSGFLAG_ERROR])
            else (Some \<lparr>control_freq = (if ms = [] then chan_number ds else freq (last ms)),
                        chan_type = 0, chan_width = NL80211_CHAN_WIDTH_80, unusual_center1 = 0,
                        center_freq1 = (if ms = [] then 0 else freq80 (last ms)),
                        center_freq2 = 0\<rparr>, []))"
proof -
  note f = vht80_suffix [OF sfx]
  note sc = scans_word(1,2) [OF ds f(1-5)]
  show ?thesis
    by (simp add: chantranslate_callback_def chantranslate_typed_def sc f sfx vht_search_char
          Let_def zero_channel_def)
qed

lemma parse_vht160_table:
  assumes ds: "ds \<noteq> []" "list_all isdigit_c ds" and sfx: "strcasecmp_eq sfx ''vht160''"
  shows "chantranslate_callback mx tbl (ds @ sfx) =
           (let ms = ht_matches (chan_number ds) tbl in
            if \<exists>e\<in>set ms. WIFI_HT_HT160 \<notin> flags e
            then (None, [Cf_send_message (msg_vht160 (chan_number ds)) MSGFLAG_ERROR])
            else (Some \<lparr>control_freq = (if ms = [] then chan_number ds else freq (last ms)),
                        chan_type = 0, chan_width = NL80211_CHAN_WIDTH_160, unusual_center1 = 0,
                        center_freq1 = (if ms = [] then 0 else freq160 (last ms)),
                        center_freq2 = 0\<rparr>, []))"
proof -
  note f = vht160_suffix [OF sfx]
  note sc = scans_word(1,2) [OF ds f(1-5)]
  show ?thesis
    by (simp add: chantranslate_callback_def chantranslate_typed_def sc f sfx vht_search_char
          Let_def zero_channel_def)
qed

lemma parse_vht80_center:
  assumes ds: "ds \<noteq> []" "list_all isdigit_c ds" and sfx: "strcasecmp_eq sfx ''vht80''"
    and cs: "cs \<noteq> []" "list_all isdigit_c cs"
  shows "chantranslate_callback mx tbl (ds @ sfx @ CHR ''-'' # cs) =
           (Some \<lparr>control_freq = chan_number ds, chan_type = 0,
                   chan_width = NL80211_CHAN_WIDTH_80, unusual_center1 = 1,
                   center_freq1 = chan_number cs, center_freq2 = 0\<rparr>, [])"
proof -
  note f = vht80_suffix [OF sfx]
  note sc = scans_word(3) [OF ds f(1-5)] scans_word(4) [OF ds f(1-5) cs]
  show ?thesis
    by (simp add: chantranslate_callback_def chantranslate_typed_def sc f sfx zero_channel_def)
qed

lemma parse_vht160_center:
  assumes ds: "ds \<noteq> []" "list_all isdigit_c ds" and sfx: "strcasecmp_eq sfx ''vht160''"
    and cs: "cs \<noteq> []" "list_all isdigit_c cs"
  shows "chantranslate_callback mx tbl (ds @ sfx @ CHR ''-'' # cs) =
           (Some \<lparr>control_freq = chan_number ds, chan_type = 0,
                   chan_width = NL80211_CHAN_WIDTH_160, unusual_center1 = 1,
                   center_freq1 = chan_number cs, center_freq2 = 0\<rparr>, [])"
proof -
  note f = vht160_suffix [OF sfx]
  note sc = scans_word(3) [OF ds f(1-5)] scans_word(4) [OF ds f(1-5) cs]
  show ?thesis
    by (simp add: chantranslate_callback_def chantranslate_typed_def sc f sfx zero_channel_def)
qed

text \<open>
  C5. Let the input be a number \<open>ds\<close> followed by a suffix that is \<^verbatim>\<open>VHT80\<close> (or
  \<^verbatim>\<open>VHT160\<close>) in any mix of upper and lower case, and let \<open>NN\<close> be the number as the
  parser holds it in its \<^verbatim>\<open>unsigned int\<close>: the value of \<open>ds\<close> when that is below
  \<open>2 ^ 32\<close>, its remainder modulo \<open>2 ^ 32\<close> when it is below \<open>2 ^ 64\<close>, and
  \<open>4294967295\<close> from \<open>2 ^ 64\<close> on. If some entry of the table with channel number or
  frequency \<open>NN\<close> lacks the VHT80 (VHT160) flag, the parse returns \<^verbatim>\<open>NULL\<close> with an
  error message. If the table has entries for \<open>NN\<close> and all of them carry the flag, the
  descriptor returned has the frequency of the table as \<open>control_freq\<close>, the 80 MHz
  (160 MHz) center of the table as \<open>center_freq1\<close>, the width 80 MHz (160 MHz) and
  \<open>unusual_center1 = 0\<close>; with several entries the last one counts. If the table has no
  entry for \<open>NN\<close>, the descriptor returned has \<open>control_freq = NN\<close>, the width, and
  \<open>center_freq1 = 0\<close>: the channel is not resolved. Every descriptor returned has that
  width. If the input goes on with \<^verbatim>\<open>-\<close> and a number \<open>CC\<close>, read as \<open>NN\<close> is, the
  descriptor has \<open>control_freq = NN\<close>, \<open>center_freq1 = CC\<close>, \<open>unusual_center1 = 1\<close> and the
  width, whatever the table is.
\<close>

theorem chantranslate_vht:
  assumes ds: "ds \<noteq> []" "list_all isdigit_c ds"
  shows
    "(strcasecmp_eq sfx ''vht80'' \<longrightarrow>
        ((\<exists>e\<in>set (ht_matches (chan_number ds) tbl). WIFI_HT_HT80 \<notin> flags e) \<longrightarrow>
           chantranslate_callback mx tbl (ds @ sfx) =
             (None, [Cf_send_message (msg_vht80 (chan_number ds)) MSGFLAG_ERROR]))
      \<and> (ht_matches (chan_number ds) tbl \<noteq> []
           \<and> (\<forall>e\<in>set (ht_matches (chan_number ds) tbl). WIFI_HT_HT80 \<in> flags e) \<longrightarrow>
           chantranslate_callback mx tbl (ds @ sfx) =
             (Some \<lparr>control_freq = freq (last (ht_matches (chan_number ds) tbl)),
                     chan_type = 0, chan_width = NL80211_CHAN_WIDTH_80, unusual_center1 = 0,
                     center_freq1 = freq80 (last (ht_matches (chan_number ds) tbl)),
                     center_freq2 = 0\<rparr>, []))
      \<and> (ht_matches (chan_number ds) tbl = [] \<longrightarrow>
           chantranslate_callback mx tbl (ds @ sfx) =
             (Some \<lparr>control_freq = chan_number ds, chan_type = 0,
                     chan_width = NL80211_CHAN_WIDTH_80, unusual_center1 = 0,
                     center_freq1 = 0, center_freq2 = 0\<rparr>, []))
      \<and> (\<forall>d evs. chantranslate_callback mx tbl (ds @ sfx) = (Some d, evs) \<longrightarrow>
             chan_width d = NL80211_CHAN_WIDTH_80)
      \<and> (cs \<noteq> [] \<and> list_all isdigit_c cs \<longrightarrow>
           chantranslate_callback mx tbl (ds @ sfx @ ''-'' @ cs) =
             (Some \<lparr>control_freq = chan_number ds, chan_type = 0,
                     chan_width = NL80211_CHAN_WIDTH_80, unusual_center1 = 1,
                     center_freq1 = chan_number cs, center_freq2 = 0\<rparr>, [])))
   \<and> (strcasecmp_eq sfx ''vht160'' \<longrightarrow>
        ((\<exists>e\<in>set (ht_matches (chan_number ds) tbl). WIFI_HT_HT160 \<notin> flags e) \<longrightarrow>
           chantranslate_callback mx tbl (ds @ sfx) =
             (None, [Cf_send_message (msg_vht160 (chan_number ds)) MSGFLAG_ERROR]))
      \<and> (ht_matches (chan_number ds) tbl \<noteq> []
           \<and> (\<forall>e\<in>set (ht_matches (chan_number ds) tbl). WIFI_HT_HT160 \<in> flags e) \<longrightarrow>
           chantranslate_callback mx tbl (ds @ sfx) =
             (Some \<lparr>control_freq = freq (last (ht_matches (chan_number ds) tbl)),
                     chan_type = 0, chan_width = NL80211_CHAN_WIDTH_160, unusual_center1 = 0,
                     center_freq1 = freq160 (last (ht_matches (chan_number ds) tbl)),
                     center_freq2 = 0\<rparr>, []))
      \<and> (ht_matches (chan_number ds) tbl = [] \<longrightarrow>
           chantranslate_callback mx tbl (ds @ sfx) =
             (Some \<lparr>control_freq = chan_number ds, chan_type = 0,
                     chan_width = NL80211_CHAN_WIDTH_160, unusual_center1 = 0,
                     center_freq1 = 0, center_freq2 = 0\<rparr>, []))
      \<and> (\<forall>d evs. chantranslate_callback mx tbl (ds @ sfx) = (Some d, evs) \<longrightarrow>
             chan_width d = NL80211_CHAN_WIDTH_160)
      \<and> (cs \<noteq> [] \<and> list_all isdigit_c cs \<longrightarrow>
           chantranslate_callback mx tbl (ds @ sfx @ ''-'' @ cs) =
             (Some \<lparr>control_freq = chan_number ds, chan_type = 0,
                     chan_width = NL80211_CHAN_WIDTH_160, unusual_center1 = 1,
                     center_freq1 = chan_number cs, center_freq2 = 0\<rparr>, [])))
   \<and> (digits_value ds < 2 ^ 32 \<longrightarrow> unat (chan_number ds) = digits_value ds)
   \<and> (digits_value ds < 2 ^ 64 \<longrightarrow> unat (chan_number ds) = digits_value ds mod 2 ^ 32)
   \<and> (2 ^ 64 \<le> digits_value ds \<longrightarrow> chan_number ds = 4294967295)"
proof (intro conjI impI)
  assume sfx: "strcasecmp_eq sfx ''vht80''"
  note t = parse_vht80_table [OF ds sfx, of mx tbl]
  show "chantranslate_callback mx tbl (ds @ sfx) =
          (None, [Cf_send_message (msg_vht80 (chan_number ds)) MSGFLAG_ERROR])"
    if "\<exists>e\<in>set (ht_matches (chan_number ds) tbl). WIFI_HT_HT80 \<notin> flags e"
    using that by (simp add: t Let_def)
  show "chantranslate_callback mx tbl (ds @ sfx) =
          (Some \<lparr>control_freq = freq (last (ht_matches (chan_number ds) tbl)),
                  chan_type = 0, chan_width = NL80211_CHAN_WIDTH_80, unusual_center1 = 0,
                  center_freq1 = freq80 (last (ht_matches (chan_number ds) tbl)),
                  center_freq2 = 0\<rparr>, [])"
    if "ht_matches (chan_number ds) tbl \<noteq> []
          \<and> (\<forall>e\<in>set (ht_matches (chan_number ds) tbl). WIFI_HT_HT80 \<in> flags e)"
    using that by (simp add: t Let_def)
  show "chantranslate_callback mx tbl (ds @ sfx) =
          (Some \<lparr>control_freq = chan_number ds, chan_type = 0,
                  chan_width = NL80211_CHAN_WIDTH_80, unusual_center1 = 0,
                  center_freq1 = 0, center_freq2 = 0\<rparr>, [])"
    if "ht_matches (chan_number ds) tbl = []"
    using that by (simp add: t Let_def)
  show "\<forall>d evs. chantranslate_callback mx tbl (ds @ sfx) = (Some d, evs) \<longrightarrow>
          chan_width d = NL80211_CHAN_WIDTH_80"
    by (auto simp: t Let_def split: if_splits)
  show "chantranslate_callback mx tbl (ds @ sfx @ ''-'' @ cs) =
          (Some \<lparr>control_freq = chan_number ds, chan_type = 0,
                  chan_width = NL80211_CHAN_WIDTH_80, unusual_center1 = 1,
                  center_freq1 = chan_number cs, center_freq2 = 0\<rparr>, [])"
    if "cs \<noteq> [] \<and> list_all isdigit_c cs"
    using that parse_vht80_center [OF ds sfx, of cs mx tbl] by simp
next
  assume sfx: "strcasecmp_eq sfx ''vht160''"
  note t = parse_vht160_table [OF ds sfx, of mx tbl]
  show "chantranslate_callback mx tbl (ds @ sfx) =
          (None, [Cf_send_message (msg_vht160 (chan_number ds)) MSGFLAG_ERROR])"
    if "\<exists>e\<in>set (ht_matches (chan_number ds) tbl). WIFI_HT_HT160 \<notin> flags e"
    using that by (simp add: t Let_def)
  show "chantranslate_callback mx tbl (ds @ sfx) =
          (Some \<lparr>control_freq = freq (last (ht_matches (chan_number ds) tbl)),
                  chan_type = 0, chan_width = NL80211_CHAN_WIDTH_160, unusual_center1 = 0,
                  center_freq1 = freq160 (last (ht_matches (chan_number ds) tbl)),
                  center_freq2 = 0\<rparr>, [])"
    if "ht_matches (chan_number ds) tbl \<noteq> []
          \<and> (\<forall>e\<in>set (ht_matches (chan_number ds) tbl). WIFI_HT_HT160 \<in> flags e)"
    using that by (simp add: t Let_def)
  show "chantranslate_callback mx tbl (ds @ sfx) =
          (Some \<lparr>control_freq = chan_number ds, chan_type = 0,
                  chan_width = NL80211_CHAN_WIDTH_160, unusual_center1 = 0,
                  center_freq1 = 0, center_freq2 = 0\<rparr>, [])"
    if "ht_matches (chan_number ds) tbl = []"
    using that by (simp add: t Let_def)
  show "\<forall>d evs. chantranslate_callback mx tbl (ds @ sfx) = (Some d, evs) \<longrightarrow>
          chan_width d = NL80211_CHAN_WIDTH_160"
    by (auto simp: t Let_def split: if_splits)
  show "chantranslate_callback mx tbl (ds @ sfx @ ''-'' @ cs) =
          (Some \<lparr>control_freq = chan_number ds, chan_type = 0,
                  chan_width = NL80211_CHAN_WIDTH_160, unusual_center1 = 1,
                  center_freq1 = chan_number cs, center_freq2 = 0\<rparr>, [])"
    if "cs \<noteq> [] \<and> list_all isdigit_c cs"
    using that parse_vht160_center [OF ds sfx, of cs mx tbl] by simp
next
  show "unat (chan_number ds) = digits_value ds" if "digits_value ds < 2 ^ 32"
    using that by (rule chan_number_small)
  show "unat (chan_number ds) = digits_value ds mod 2 ^ 32" if "digits_value ds < 2 ^ 64"
    using that by (rule chan_number_wraps)
  show "chan_number ds = 4294967295" if "2 ^ 64 \<le> digits_value ds"
    using that by (rule chan_number_saturates)
qed

lemma sample_matches:
  "ht_matches 36 sample_ht_channels =
     [\<lparr>chan = 36, freq = 5180, flags = {WIFI_HT_HT40PLUS, WIFI_HT_HT80, WIFI_HT_HT160},
       freq80 = 5210, freq160 = 5250\<rparr>]"
  "ht_matches 5180 sample_ht_channels =
     [\<lparr>chan = 36, freq = 5180, flags = {WIFI_HT_HT40PLUS, WIFI_HT_HT80, WIFI_HT_HT160},
       freq80 = 5210, freq160 = 5250\<rparr>]"
  "ht_matches 165 sample_ht_channels =
     [\<lparr>chan = 165, freq = 5825, flags = {}, freq80 = 0, freq160 = 0\<rparr>]"
  "ht_matches 7 sample_ht_channels = []"
  "ht_matches 4294967295 sample_ht_channels = []"
  by (simp_all add: ht_matches_def sample_ht_channels_def)

lemma casecmp_eval:
  "strcasecmp_eq ''VHT80'' ''vht80''" "strcasecmp_eq ''vHt160'' ''vht160''"
  by (simp_all add: strcasecmp_eq_def tolower_c_def char_of_eq_iff)

theorem chantranslate_vht_witness:
  "chantranslate_callback 4 sample_ht_channels ''36VHT80'' =
     (Some \<lparr>control_freq = 5180, chan_type = 0, chan_width = NL80211_CHAN_WIDTH_80,
             unusual_center1 = 0, center_freq1 = 5210, center_freq2 = 0\<rparr>, [])
   \<and> chantranslate_callback 4 sample_ht_channels ''165VHT80'' =
       (None, [Cf_send_message (msg_vht80 165) MSGFLAG_ERROR])
   \<and> chantranslate_callback 4 sample_ht_channels ''7VHT80'' =
     (Some \<lparr>control_freq = 7, chan_type = 0, chan_width = NL80211_CHAN_WIDTH_80,
             unusual_center1 = 0, center_freq1 = 0, center_freq2 = 0\<rparr>, [])
   \<and> chantranslate_callback 4 sample_ht_channels ''4294972476VHT80'' =
     (Some \<lparr>control_freq = 5180, chan_type = 0, chan_width = NL80211_CHAN_WIDTH_80,
             unusual_center1 = 0, center_freq1 = 5210, center_freq2 = 0\<rparr>, [])
   \<and> chantranslate_callback 4 sample_ht_channels ''18446744073709551652VHT80'' =
     (Some \<lparr>control_freq = 4294967295, chan_type = 0, chan_width = NL80211_CHAN_WIDTH_80,
             unusual_center1 = 0, center_freq1 = 0, center_freq2 = 0\<rparr>, [])
   \<and> chantranslate_callback 4 sample_ht_channels ''36VHT80-5250'' =
     (Some \<lparr>control_freq = 36, chan_type = 0, chan_width = NL80211_CHAN_WIDTH_80,
             unusual_center1 = 1, center_freq1 = 5250, center_freq2 = 0\<rparr>, [])
   \<and> chantranslate_callback 4 sample_ht_channels ''36vHt160'' =
     (Some \<lparr>control_freq = 5180, chan_type = 0, chan_width = NL80211_CHAN_WIDTH_160,
             unusual_center1 = 0, center_freq1 = 5250, center_freq2 = 0\<rparr>, [])
   \<and> chantranslate_callback 4 sample_ht_channels ''165vHt160'' =
       (None, [Cf_send_message (msg_vht160 165) MSGFLAG_ERROR])
   \<and> chantranslate_callback 4 sample_ht_channels ''7vHt160'' =
     (Some \<lparr>control_freq = 7, chan_type = 0, chan_width = NL80211_CHAN_WIDTH_160,
             unusual_center1 = 0, center_freq1 = 0, center_freq2 = 0\<rparr>, [])
   \<and> chantranslate_callback 4 sample_ht_channels ''100vHt160-5250'' =
     (Some \<lparr>control_freq = 100, chan_type = 0, chan_width = NL80211_CHAN_WIDTH_160,
             unusual_center1 = 1, center_freq1 = 5250, center_freq2 = 0\<rparr>, [])
   \<and> chan_width (the (fst (chantranslate_callback 4 sample_ht_channels ''36VHT80''))) =
       NL80211_CHAN_WIDTH_80
   \<and> unat (chan_number ''36'') = 36
   \<and> unat (chan_number ''4294972476'') = 4294972476 mod 2 ^ 32
   \<and> chan_number ''18446744073709551652'' = 4294967295"
proof -
  note v80 = chantranslate_vht [where sfx = "''VHT80''" and tbl = sample_ht_channels
      and mx = 4 and cs = "''5250''", THEN conjunct1, THEN mp, OF _ _ casecmp_eval(1)]
  note v160 = chantranslate_vht [where sfx = "''vHt160''" and tbl = sample_ht_channels
      and mx = 4 and cs = "''5250''", THEN conjunct2, THEN conjunct1, THEN mp,
      OF _ _ casecmp_eval(2)]
  note num = chantranslate_vht [where sfx = "''VHT80''" and tbl = sample_ht_channels
      and mx = 4 and cs = "''5250''", THEN conjunct2, THEN conjunct2]
  have r: "chantranslate_callback 4 sample_ht_channels ''36VHT80'' =
     (Some \<lparr>control_freq = 5180, chan_type = 0, chan_width = NL80211_CHAN_WIDTH_80,
             unusual_center1 = 0, center_freq1 = 5210, center_freq2 = 0\<rparr>, [])"
    using v80 [of "''36''", THEN conjunct2, THEN conjunct1]
    by (simp add: isdigit_c_def chan_number_eval sample_matches)
  have w: "\<forall>d evs. chantranslate_callback 4 sample_ht_channels ''36VHT80'' = (Some d, evs) \<longrightarrow>
          chan_width d = NL80211_CHAN_WIDTH_80"
    using v80 [of "''36''", THEN conjunct2, THEN conjunct2, THEN conjunct2, THEN conjunct1]
    by (simp add: isdigit_c_def)
  have "chan_width (the (fst (chantranslate_callback 4 sample_ht_channels ''36VHT80''))) =
       NL80211_CHAN_WIDTH_80"
  proof -
    have "fst (chantranslate_callback 4 sample_ht_channels ''36VHT80'') =
            Some (the (fst (chantranslate_callback 4 sample_ht_channels ''36VHT80'')))"
      by (simp add: r)
    then have "chantranslate_callback 4 sample_ht_channels ''36VHT80'' =
            (Some (the (fst (chantranslate_callback 4 sample_ht_channels ''36VHT80''))),
             snd (chantranslate_callback 4 sample_ht_channels ''36VHT80''))"
      by (simp add: prod_eq_iff)
    with w show ?thesis by blast
  qed
  moreover note r
  moreover have "chantranslate_callback 4 sample_ht_channels ''165VHT80'' =
       (None, [Cf_send_message (msg_vht80 165) MSGFLAG_ERROR])"
    using v80 [of "''165''", THEN conjunct1]
    by (simp add: isdigit_c_def chan_number_eval sample_matches)
  moreover have "chantranslate_callback 4 sample_ht_channels ''7VHT80'' =
     (Some \<lparr>control_freq = 7, chan_type = 0, chan_width = NL80211_CHAN_WIDTH_80,
             unusual_center1 = 0, center_freq1 = 0, center_freq2 = 0\<rparr>, [])"
    using v80 [of "''7''", THEN conjunct2, THEN conjunct2, THEN conjunct1]
    by (simp add: isdigit_c_def chan_number_eval sample_matches)
  moreover have "chantranslate_callback 4 sample_ht_channels ''4294972476VHT80'' =
     (Some \<lparr>control_freq = 5180, chan_type = 0, chan_width = NL80211_CHAN_WIDTH_80,
             unusual_center1 = 0, center_freq1 = 5210, center_freq2 = 0\<rparr>, [])"
    using v80 [of "''4294972476''", THEN conjunct2, THEN conjunct1]
    by (simp add: isdigit_c_def chan_number_eval sample_matches)
  moreover have "chantranslate_callback 4 sample_ht_channels ''18446744073709551652VHT80'' =
     (Some \<lparr>control_freq = 4294967295, chan_type = 0, chan_width = NL80211_CHAN_WIDTH_80,
             unusual_center1 = 0, center_freq1 = 0, center_freq2 = 0\<rparr>, [])"
    using v80 [of "''18446744073709551652''", THEN conjunct2, THEN conjunct2, THEN conjunct1]
    by (simp add: isdigit_c_def chan_number_eval sample_matches)
  moreover have "chantranslate_callback 4 sample_ht_channels ''36VHT80-5250'' =
     (Some \<lparr>control_freq = 36, chan_type = 0, chan_width = NL80211_CHAN_WIDTH_80,
             unusual_center1 = 1, center_freq1 = 5250, center_freq2 = 0\<rparr>, [])"
    using v80 [of "''36''", THEN conjunct2, THEN conjunct2, THEN conjunct2, THEN conjunct2]
    by (simp add: isdigit_c_def chan_number_eval)
  moreover have "chantranslate_callback 4 sample_ht_channels ''36vHt160'' =
     (Some \<lparr>control_freq = 5180, chan_type = 0, chan_width = NL80211_CHAN_WIDTH_160,
             unusual_center1 = 0, center_freq1 = 5250, center_freq2 = 0\<rparr>, [])"
    using v160 [of "''36''", THEN conjunct2, THEN conjunct1]
    by (simp add: isdigit_c_def chan_number_eval sample_matches)
  moreover have "chantranslate_callback 4 sample_ht_channels ''165vHt160'' =
       (None, [Cf_send_message (msg_vht160 165) MSGFLAG_ERROR])"
    using v160 [of "''165''", THEN conjunct1]
    by (simp add: isdigit_c_def chan_number_eval sample_matches)
  moreover have "chantranslate_callback 4 sample_ht_channels ''7vHt160'' =
     (Some \<lparr>control_freq = 7, chan_type = 0, chan_width = NL80211_CHAN_WIDTH_160,
             unusual_center1 = 0, center_freq1 = 0, center_freq2 = 0\<rparr>, [])"
    using v160 [of "''7''", THEN conjunct2, THEN conjunct2, THEN conjunct1]
    by (simp add: isdigit_c_def chan_number_eval sample_matches)
  moreover have "chantranslate_callback 4 sample_ht_channels ''100vHt160-5250'' =
     (Some \<lparr>control_freq = 100, chan_type = 0, chan_width = NL80211_CHAN_WIDTH_160,
             unusual_center1 = 1, center_freq1 = 5250, center_freq2 = 0\<rparr>, [])"
    using v160 [of "''100''", THEN conjunct2, THEN conjunct2, THEN conjunct2, THEN conjunct2]
    by (simp add: isdigit_c_def chan_number_eval)
  moreover have "unat (chan_number ''36'') = 36"
    using num [of "''36''", THEN conjunct1] by (simp add: isdigit_c_def digits_eval)
  moreover have "unat (chan_number ''4294972476'') = 4294972476 mod 2 ^ 32"
    using num [of "''4294972476''", THEN conjunct2, THEN conjunct1] by (simp add: isdigit_c_def digits_eval)
  moreover have "chan_number ''18446744073709551652'' = 4294967295"
    using num [of "''18446744073709551652''", THEN conjunct2, THEN conjunct2]
    by (simp add: isdigit_c_def digits_eval)
  ultimately show ?thesis by blast
qed

lemma parse_dash:
  assumes ds: "ds \<noteq> []" "list_all isdigit_c ds"
  shows "chantranslate_callback mx tbl (ds @ CHR ''-'' # rest) =
           (Some \<lparr>control_freq = chan_number ds, chan_type = 0,
                   chan_width = 0, unusual_center1 = 0, center_freq1 = 0, center_freq2 = 0\<rparr>, [])"
proof -
  have nda: "no_digit_ahead (CHR ''-'' # rest)" by (simp add: isdigit_c_def)
  have a: "sscanf_ht40 (ds @ CHR ''-'' # rest) = Ht40_r1 (chan_number ds)"
    unfolding sscanf_ht40_digits [OF ds nda] by simp
  have b: "sscanf_vht (ds @ CHR ''-'' # rest) = Vht_r1 (chan_number ds)"
    unfolding sscanf_vht_digits [OF ds nda] by simp
  show ?thesis
    by (simp add: chantranslate_callback_def a b zero_channel_def)
qed

lemma parse_sample_suffixes:
  "chantranslate_callback mx tbl ''6Q'' =
     (Some (zero_channel\<lparr>control_freq := 6\<rparr>),
      [Cf_send_message (msg_attributes ''6Q'') MSGFLAG_INFO])"
  "chantranslate_callback mx tbl ''6HT40x'' =
     (Some (zero_channel\<lparr>control_freq := 6\<rparr>),
      [Cf_send_message (msg_attributes ''6HT40x'') MSGFLAG_INFO])"
  "chantranslate_callback mx tbl ''garbage'' =
     (None, [Cf_send_message (msg_no_channel ''garbage'') MSGFLAG_ERROR])"
  by (simp_all add: chantranslate_callback_def chantranslate_typed_def sample_scans
        sample_no_scan strcasecmp_eq_def tolower_c_def char_of_eq_iff)

lemma parse_sample_ht40:
  "chantranslate_callback 4 sample_ht_channels ''1HT40-'' =
     (Some (zero_channel\<lparr>control_freq := 1, chan_type := NL80211_CHAN_HT40MINUS\<rparr>),
      [Cf_send_message (msg_ht40 ''-'' 1) MSGFLAG_INFO])"
  by (simp add: chantranslate_callback_def sample_scans sample_ht_channels_def)

text \<open>
  C6. The claim has every input with a leading integer and a suffix that is not
  recognized parsed as the bare channel, with an informational diagnostic. The two
  branches that deal with such a suffix send it: the last branch of the HT40 scan
  (\<^verbatim>\<open>6HT40x\<close>) and the last branch of the type comparison (\<^verbatim>\<open>6Q\<close>). A suffix that begins
  with \<^verbatim>\<open>-\<close> reaches neither: the conversion \<^verbatim>\<open>%15[^-]\<close> of the second scan fails on
  it, the scan returns 1, and the branch \<^verbatim>\<open>r == 1\<close>, written for the bare channel number,
  returns the descriptor with no diagnostic. So \<^verbatim>\<open>6-\<close> and \<^verbatim>\<open>6-5\<close> are parsed as the
  channel 6 and nothing is sent, for every table. The other two parts of the claim are
  seen at work on the sample table: \<^verbatim>\<open>1HT40-\<close>, for a channel without the HT40- flag, gives the
  descriptor with the channel type set and one informational diagnostic, and
  \<^verbatim>\<open>garbage\<close> gives \<^verbatim>\<open>NULL\<close> with an error diagnostic.
\<close>

theorem chantranslate_dash_suffix_silent:
  "chantranslate_callback mx tbl ''6-'' = (Some (zero_channel\<lparr>control_freq := 6\<rparr>), [])
   \<and> chantranslate_callback mx tbl ''6-5'' = (Some (zero_channel\<lparr>control_freq := 6\<rparr>), [])
   \<and> chantranslate_callback mx tbl ''6Q'' =
       (Some (zero_channel\<lparr>control_freq := 6\<rparr>),
        [Cf_send_message (msg_attributes ''6Q'') MSGFLAG_INFO])
   \<and> chantranslate_callback mx tbl ''6HT40x'' =
       (Some (zero_channel\<lparr>control_freq := 6\<rparr>),
        [Cf_send_message (msg_attributes ''6HT40x'') MSGFLAG_INFO])
   \<and> chantranslate_callback 4 sample_ht_channels ''1HT40-'' =
       (Some (zero_channel\<lparr>control_freq := 1, chan_type := NL80211_CHAN_HT40MINUS\<rparr>),
        [Cf_send_message (msg_ht40 ''-'' 1) MSGFLAG_INFO])
   \<and> chantranslate_callback mx tbl ''garbage'' =
       (None, [Cf_send_message (msg_no_channel ''garbage'') MSGFLAG_ERROR])"
  using parse_dash [of "''6''" mx tbl "[]"] parse_dash [of "''6''" mx tbl "''5''"]
  by (simp add: parse_sample_suffixes parse_sample_ht40 isdigit_c_def chan_number_eval
        zero_channel_def)

subsection \<open>Channel controller\<close>

text \<open>
  C10. A call of the channel controller with a \<^verbatim>\<open>NULL\<close> channel descriptor returns 0 at
  once, whatever the sequence number: it makes no call to a backend (or to anything
  else), and the state and the message buffer are as they were.
\<close>

theorem chancontrol_null_channel:
  "chancontrol_callback be local_wifi seqno None msg = (0, local_wifi, msg, [])"
  by (simp add: chancontrol_callback_def)

lemma chanset_failed_no_backend:
  "chanset_failed lw seqno ch errstr = (ret, lw', m, evs) \<Longrightarrow> filter is_backend_call evs = []"
  by (auto simp: chanset_failed_def Let_def split: if_splits)

text \<open>
  C4. A call of the channel controller with a descriptor makes exactly one call to a
  channel-set operation, and makes it first. With \<open>use_mac80211\<close> set and a channel width
  other than 0 it is \<^verbatim>\<open>mac80211_set_frequency_cache\<close> on the capture interface with the
  control frequency, the width and both center frequencies of the descriptor; with
  \<open>use_mac80211\<close> set and the width 0 it is \<^verbatim>\<open>mac80211_set_channel_cache\<close> with the
  control frequency and the channel type; with \<open>use_mac80211 = 0\<close> it is
  \<^verbatim>\<open>iwconfig_set_channel\<close> on the interface with the control frequency alone.
\<close>

theorem chancontrol_dispatch:
  assumes "chancontrol_callback be lw seqno (Some ch) msg = (ret, lw', m, evs)"
  shows "(use_mac80211 lw \<noteq> 0 \<and> chan_width ch \<noteq> 0 \<longrightarrow>
            hd evs = Mac80211_set_frequency_cache (cap_interface lw) (mac80211_handle lw)
                       (mac80211_family lw) (control_freq ch) (chan_width ch)
                       (center_freq1 ch) (center_freq2 ch)
            \<and> filter is_backend_call evs = [hd evs])
       \<and> (use_mac80211 lw \<noteq> 0 \<and> chan_width ch = 0 \<longrightarrow>
            hd evs = Mac80211_set_channel_cache (cap_interface lw) (mac80211_handle lw)
                       (mac80211_family lw) (control_freq ch) (chan_type ch)
            \<and> filter is_backend_call evs = [hd evs])
       \<and> (use_mac80211 lw = 0 \<longrightarrow>
            hd evs = Iwconfig_set_channel (interface lw) (control_freq ch)
            \<and> filter is_backend_call evs = [hd evs])"
  using assms
  by (auto simp: chancontrol_callback_def Let_def
        split: if_splits prod.splits dest: chanset_failed_no_backend)

lemma sample_dispatch_eval:
  "chancontrol_callback (backend_always 0 []) sample_wifi 0 (Some sample_vht_channel) [] =
     (0, sample_wifi, [], [Mac80211_set_frequency_cache (Some ''wlan0mon'') (Some 2) (Some 4)
                              5180 NL80211_CHAN_WIDTH_80 5210 0])"
  "chancontrol_callback (backend_always 0 []) sample_wifi 0 (Some sample_channel) [] =
     (0, sample_wifi, [], [Mac80211_set_channel_cache (Some ''wlan0mon'') (Some 2) (Some 4) 6 0])"
  "chancontrol_callback (backend_always 0 []) (sample_wifi\<lparr>use_mac80211 := 0\<rparr>) 0
      (Some sample_vht_channel) [] =
     (0, sample_wifi\<lparr>use_mac80211 := 0\<rparr>, [], [Iwconfig_set_channel (Some ''wlan0'') 5180])"
  by (simp_all add: chancontrol_callback_def backend_always_def sample_wifi_def
        sample_vht_channel_def sample_channel_def zero_channel_def nl80211_defs)

theorem chancontrol_dispatch_witness:
  "(use_mac80211 sample_wifi \<noteq> 0 \<and> chan_width sample_vht_channel \<noteq> 0
      \<and> chancontrol_callback (backend_always 0 []) sample_wifi 0 (Some sample_vht_channel) [] =
          (0, sample_wifi, [], [Mac80211_set_frequency_cache (Some ''wlan0mon'') (Some 2) (Some 4)
                                  5180 NL80211_CHAN_WIDTH_80 5210 0])
      \<and> filter is_backend_call
           [Mac80211_set_frequency_cache (Some ''wlan0mon'') (Some 2) (Some 4) 5180
              NL80211_CHAN_WIDTH_80 5210 0]
         = [Mac80211_set_frequency_cache (cap_interface sample_wifi) (mac80211_handle sample_wifi)
              (mac80211_family sample_wifi) (control_freq sample_vht_channel)
              (chan_width sample_vht_channel) (center_freq1 sample_vht_channel)
              (center_freq2 sample_vht_channel)])
   \<and> (use_mac80211 sample_wifi \<noteq> 0 \<and> chan_width sample_channel = 0
      \<and> chancontrol_callback (backend_always 0 []) sample_wifi 0 (Some sample_channel) [] =
          (0, sample_wifi, [],
           [Mac80211_set_channel_cache (Some ''wlan0mon'') (Some 2) (Some 4) 6 0])
      \<and> filter is_backend_call
           [Mac80211_set_channel_cache (Some ''wlan0mon'') (Some 2) (Some 4) 6 0]
         = [Mac80211_set_channel_cache (cap_interface sample_wifi) (mac80211_handle sample_wifi)
              (mac80211_family sample_wifi) (control_freq sample_channel)
              (chan_type sample_channel)])
   \<and> (use_mac80211 (sample_wifi\<lparr>use_mac80211 := 0\<rparr>) = 0
      \<and> chancontrol_callback (backend_always 0 []) (sample_wifi\<lparr>use_mac80211 := 0\<rparr>) 0
           (Some sample_vht_channel) [] =
          (0, sample_wifi\<lparr>use_mac80211 := 0\<rparr>, [],
           [Iwconfig_set_channel (Some ''wlan0'') 5180])
      \<and> filter is_backend_call [Iwconfig_set_channel (Some ''wlan0'') 5180]
         = [Iwconfig_set_channel (interface (sample_wifi\<lparr>use_mac80211 := 0\<rparr>))
              (control_freq sample_vht_channel)])"
  using chancontrol_dispatch [OF sample_dispatch_eval(1)]
    chancontrol_dispatch [OF sample_dispatch_eval(2)]
    chancontrol_dispatch [OF sample_dispatch_eval(3)]
    sample_dispatch_eval
  by (simp add: sample_wifi_def sample_vht_channel_def sample_channel_def zero_channel_def
        nl80211_defs)

lemma hop_tick_fail:
  assumes "seq_channel_failure lw < 10"
  shows "hop_ticks (backend_always (-1) errstr) lw ch n = (replicate n 0, lw)"
proof (induction n)
  case 0
  show ?case by simp
next
  case (Suc n)
  have "\<exists>m evs. chancontrol_callback (backend_always (-1) errstr) lw 0 (Some ch) [] = (0, lw, m, evs)"
    using assms
    by (simp add: chancontrol_callback_def chanset_failed_def backend_always_def Let_def)
  then show ?case using Suc by auto
qed

text \<open>
  C1. The claim has a failed channel set in hop context counted, and the tenth failure
  in a row ended with an error. The code compares \<open>seq_channel_failure\<close> with 10 but
  never adds to it: the field is only ever set to 0. A failed hop tick returns 0 with an
  error-level message and the state as it was, so twelve failures in a row all return 0
  and leave the counter at 0, on the legacy backend and on the netlink backend.
\<close>

theorem chancontrol_hop_failures_not_counted:
  "chancontrol_callback (backend_always (-1) ''busy'') (sample_wifi\<lparr>use_mac80211 := 0\<rparr>) 0
     (Some sample_channel) [] =
     (0, sample_wifi\<lparr>use_mac80211 := 0\<rparr>,
      ''Could not set channel 6; ignoring error and continuing (busy)'',
      [Iwconfig_set_channel (Some ''wlan0'') 6,
       Cf_send_message ''Could not set channel 6; ignoring error and continuing (busy)''
         MSGFLAG_ERROR])
   \<and> seq_channel_failure sample_wifi = 0
   \<and> hop_ticks (backend_always (-1) ''busy'') (sample_wifi\<lparr>use_mac80211 := 0\<rparr>)
       sample_channel 12 = (replicate 12 0, sample_wifi\<lparr>use_mac80211 := 0\<rparr>)
   \<and> hop_ticks (backend_always (-1) ''busy'') sample_wifi sample_channel 12 =
       (replicate 12 0, sample_wifi)"
proof -
  have "chancontrol_callback (backend_always (-1) ''busy'') (sample_wifi\<lparr>use_mac80211 := 0\<rparr>) 0
     (Some sample_channel) [] =
     (0, sample_wifi\<lparr>use_mac80211 := 0\<rparr>,
      ''Could not set channel 6; ignoring error and continuing (busy)'',
      [Iwconfig_set_channel (Some ''wlan0'') 6,
       Cf_send_message ''Could not set channel 6; ignoring error and continuing (busy)''
         MSGFLAG_ERROR])"
    by (simp add: chancontrol_callback_def chanset_failed_def backend_always_def sample_wifi_def
          sample_channel_def zero_channel_def local_channel_to_str_def fmt_u_def utoa_eval
          digit_char_eval Let_def)
  moreover have "seq_channel_failure sample_wifi = 0"
    by (simp add: sample_wifi_def)
  ultimately show ?thesis
    by (simp add: hop_tick_fail)
qed

text \<open>
  C2. A successful channel set resets \<open>seq_channel_failure\<close> on both paths, but only
  the legacy path sends the configure response when \<open>seqno \<noteq> 0\<close>. With the sequence
  number 7 and three failures on record, the netlink path makes the backend call, sets
  the counter to 0 and does nothing else, while the legacy path, for the same channel,
  also calls \<^verbatim>\<open>cf_send_configresp_channel\<close> with the serialized channel.
\<close>

theorem chancontrol_netlink_no_configresp:
  "chancontrol_callback (backend_always 0 []) (sample_wifi\<lparr>seq_channel_failure := 3\<rparr>) 7
     (Some sample_channel) [] =
     (0, sample_wifi\<lparr>seq_channel_failure := 0\<rparr>, [],
      [Mac80211_set_channel_cache (Some ''wlan0mon'') (Some 2) (Some 4) 6 0])
   \<and> chancontrol_callback (backend_always 0 [])
        (sample_wifi\<lparr>use_mac80211 := 0, seq_channel_failure := 3\<rparr>) 7 (Some sample_channel) [] =
     (0, sample_wifi\<lparr>use_mac80211 := 0, seq_channel_failure := 0\<rparr>, [],
      [Iwconfig_set_channel (Some ''wlan0'') 6, Cf_send_configresp_channel 7 1 None ''6''])"
  by (simp add: chancontrol_callback_def backend_always_def sample_wifi_def
        sample_channel_def zero_channel_def local_channel_to_str_def fmt_u_def utoa_eval
        digit_char_eval)

subsection \<open>Packet dispatch\<close>

lemma dispatch_all_errors:
  "snd (pcap_dispatch_cb lw hdr data (replicate n (-1))) = False"
  by (induction n) (auto simp: Let_def split: prod.splits)

text \<open>
  C9. A result "buffer full" makes the callback wait and send the same packet again,
  and a result "ok" ends it. After a result "error" the callback calls
  \<^verbatim>\<open>pcap_breakloop\<close>, \<^verbatim>\<open>cf_send_error\<close> and \<^verbatim>\<open>cf_handler_spindown\<close>, but the branch
  does not leave the loop \<^verbatim>\<open>while (1)\<close>: the same packet is sent again. With the results
  error, ok the packet goes out after the error was reported; as long as every send
  fails the callback does not return. With the results full, full, ok the packet is
  sent three times with a wait after each full buffer.
\<close>

theorem pcap_dispatch_resends_after_error:
  "pcap_dispatch_cb lw hdr data [-1, 1] =
     ([Cf_send_data (ts hdr) (datalink_type lw) (caplen hdr) data,
       Pcap_breakloop (pd lw), Cf_send_error ''unable to send DATA frame'', Cf_handler_spindown,
       Cf_send_data (ts hdr) (datalink_type lw) (caplen hdr) data], True)
   \<and> (\<forall>n. snd (pcap_dispatch_cb lw hdr data (replicate n (-1))) = False)
   \<and> pcap_dispatch_cb lw hdr data [0, 0, 1] =
     ([Cf_send_data (ts hdr) (datalink_type lw) (caplen hdr) data, Cf_handler_wait_ringbuffer,
       Cf_send_data (ts hdr) (datalink_type lw) (caplen hdr) data, Cf_handler_wait_ringbuffer,
       Cf_send_data (ts hdr) (datalink_type lw) (caplen hdr) data], True)"
  by (simp add: dispatch_all_errors Let_def)

subsection \<open>Opening\<close>

lemma hex_char_facts: "d < 16 \<Longrightarrow> is_upper_hex (hex_char d) \<and> hex_val (hex_char d) = d"
  by (auto simp: is_upper_hex_def hex_val_def hex_char_def isdigit_c_def)

lemma xtoa_hex: "list_all is_upper_hex (xtoa n)"
proof (induction n rule: xtoa.induct)
  case (1 n)
  show ?case
  proof (cases "n < 16")
    case True
    then show ?thesis by (subst xtoa.simps) (simp add: hex_char_facts)
  next
    case False
    with 1 show ?thesis by (subst xtoa.simps) (simp add: hex_char_facts)
  qed
qed

lemma xtoa_value: "foldl (\<lambda>a c. 16 * a + hex_val c) 0 (xtoa n) = n"
proof (induction n rule: xtoa.induct)
  case (1 n)
  show ?case
  proof (cases "n < 16")
    case True
    then show ?thesis by (subst xtoa.simps) (simp add: hex_char_facts)
  next
    case False
    with 1 show ?thesis by (subst xtoa.simps) (simp add: hex_char_facts)
  qed
qed

lemma xtoa_length: "n < 16 ^ k \<Longrightarrow> 0 < k \<Longrightarrow> length (xtoa n) \<le> k"
proof (induction n arbitrary: k rule: xtoa.induct)
  case (1 n)
  show ?case
  proof (cases "n < 16")
    case True
    then show ?thesis using "1.prems" by (subst xtoa.simps) simp
  next
    case False
    then obtain k' where k: "k = Suc k'" using "1.prems" by (cases k) auto
    with False "1.prems" have k'pos: "0 < k'" by (cases k') auto
    from "1.prems" k have "n div 16 < 16 ^ k'"
      by (simp add: less_mult_imp_div_less mult.commute)
    from "1.IH" [OF False this k'pos] show ?thesis
      using False by (subst xtoa.simps) (simp add: k)
  qed
qed

lemma foldl_hex_zeros:
  "foldl (\<lambda>a c. 16 * a + hex_val c) 0 (replicate k CHR ''0'' @ s)
     = foldl (\<lambda>a c. 16 * a + hex_val c) 0 s"
  by (induction k) (simp_all add: hex_val_def isdigit_c_def)

lemma fmt_0X_is_hex:
  assumes "n < 16 ^ w" "0 < w"
  shows "is_hex_of w n (fmt_0X w n)"
proof -
  have "length (xtoa n) \<le> w" by (rule xtoa_length [OF assms])
  then have "length (fmt_0X w n) = w" by (simp add: fmt_0X_def)
  moreover have "list_all is_upper_hex (fmt_0X w n)"
    by (simp add: fmt_0X_def xtoa_hex list_all_iff is_upper_hex_def isdigit_c_def)
       (use xtoa_hex [of n] in \<open>auto simp: list_all_iff is_upper_hex_def isdigit_c_def\<close>)
  moreover have "hex_value (fmt_0X w n) = n"
    unfolding hex_value_def fmt_0X_def foldl_hex_zeros by (rule xtoa_value)
  ultimately show ?thesis by (simp add: is_hex_of_def)
qed

lemma fmt_u32_hex: "is_hex_of 8 (unat w) (fmt_0X 8 (unat (w AND 0xFFFFFFFF)))" for w :: u32
proof -
  have e: "(0xFFFFFFFF :: u32) = - 1" by simp
  have "w AND 0xFFFFFFFF = w" unfolding e by (rule and.right_neutral)
  moreover have "unat w < 16 ^ 8" using unsigned_less [of w, where 'a = nat] by simp
  ultimately show ?thesis by (simp add: fmt_0X_is_hex)
qed

lemma fmt_u8_hex: "is_hex_of 2 (unat h) (fmt_0X 2 (unat (h AND 0xFF)))" for h :: u8
proof -
  have e: "(0xFF :: u8) = - 1" by simp
  have "h AND 0xFF = h" unfolding e by (rule and.right_neutral)
  moreover have "unat h < 16 ^ 2" using unsigned_less [of h, where 'a = nat] by simp
  ultimately show ?thesis by (simp add: fmt_0X_is_hex)
qed

lemma uuid_shape:
  "\<exists>A M0 M1 M2 M3 M4 M5.
      open_uuid env (h0, h1, h2, h3, h4, h5) = A @ ''-0000-0000-0000-'' @ M0 @ M1 @ M2 @ M3 @ M4 @ M5
      \<and> is_hex_of 8 (unat (adler32_csum env (map of_char ''kismet_cap_linux_wifi''))) A
      \<and> is_hex_of 2 (unat h0) M0 \<and> is_hex_of 2 (unat h1) M1 \<and> is_hex_of 2 (unat h2) M2
      \<and> is_hex_of 2 (unat h3) M3 \<and> is_hex_of 2 (unat h4) M4 \<and> is_hex_of 2 (unat h5) M5"
  unfolding open_uuid_def prod.case
  using fmt_u32_hex [of "adler32_csum env (map of_char ''kismet_cap_linux_wifi'')"]
    fmt_u8_hex [of h0] fmt_u8_hex [of h1] fmt_u8_hex [of h2]
    fmt_u8_hex [of h3] fmt_u8_hex [of h4] fmt_u8_hex [of h5]
  by blast

lemma open_head_uuid:
  assumes "open_callback_head env lw defn msg = (ret, lw', m, Some u, evs)"
  shows "\<exists>ifname hw. interface lw' = Some ifname \<and> ifconfig_get_hwaddr env ifname = Inr hw
            \<and> u = open_uuid env hw"
  using assms
  unfolding open_callback_head_def Let_def
  by (auto split: prod.splits if_splits sum.splits option.splits)

text \<open>
  C8, as amended. A UUID that \<^verbatim>\<open>open_callback\<close> hands out is
  \<open>A-0000-0000-0000-M\<close>: \<open>A\<close> is 8 upper-case hexadecimal digits with the value of
  \<^verbatim>\<open>adler32_csum\<close> on the text \<^verbatim>\<open>kismet_cap_linux_wifi\<close>, and \<open>M\<close> is 12 upper-case
  hexadecimal digits, two for each of the six bytes of the hardware address of the
  interface named in the source definition (\<^verbatim>\<open>local_wifi->interface\<close>), in order. So
  the UUID is a function of that address and of the checksum only.
\<close>

theorem open_uuid_form:
  assumes "open_callback_head env lw defn msg = (ret, lw', m, Some u, evs)"
  shows "\<exists>ifname h0 h1 h2 h3 h4 h5 A M0 M1 M2 M3 M4 M5.
           interface lw' = Some ifname
         \<and> ifconfig_get_hwaddr env ifname = Inr (h0, h1, h2, h3, h4, h5)
         \<and> u = A @ ''-0000-0000-0000-'' @ M0 @ M1 @ M2 @ M3 @ M4 @ M5
         \<and> is_hex_of 8 (unat (adler32_csum env (map of_char ''kismet_cap_linux_wifi''))) A
         \<and> is_hex_of 2 (unat h0) M0 \<and> is_hex_of 2 (unat h1) M1 \<and> is_hex_of 2 (unat h2) M2
         \<and> is_hex_of 2 (unat h3) M3 \<and> is_hex_of 2 (unat h4) M4 \<and> is_hex_of 2 (unat h5) M5"
proof -
  from open_head_uuid [OF assms] obtain ifname hw where
    i: "interface lw' = Some ifname" and h: "ifconfig_get_hwaddr env ifname = Inr hw"
    and u: "u = open_uuid env hw" by blast
  obtain h0 h1 h2 h3 h4 h5 where hw: "hw = (h0, h1, h2, h3, h4, h5)"
    by (cases hw) auto
  from uuid_shape [of env h0 h1 h2 h3 h4 h5] i h u hw show ?thesis
    by blast
qed

lemma utoa_length_100: "i < 100 \<Longrightarrow> length (utoa i) \<le> 2"
proof (cases "i < 10")
  case True
  then show ?thesis by (subst utoa.simps) simp
next
  case False
  assume "i < 100"
  then have "i div 10 < 10" by simp
  then have "length (utoa (i div 10)) = 1" by (subst utoa.simps) simp
  with False show ?thesis by (subst utoa.simps) simp
qed

lemma kismon_name:
  "i < 100 \<Longrightarrow> snprintf_n IFNAMSIZ (''kismon'' @ fmt_d (int i)) = ''kismon'' @ utoa i"
  using utoa_length_100 [of i] by (simp add: snprintf_n_def IFNAMSIZ_def fmt_d_def)

lemma find_next_ifnum_loop_char:
  "\<forall>i\<in>set is. i < 100 \<Longrightarrow>
     find_next_ifnum_loop env ''kismon'' is =
       (case List.find (\<lambda>i. if_nametoindex env (''kismon'' @ utoa i) = 0) is of
          None \<Rightarrow> -1 | Some i \<Rightarrow> int i)"
proof (induction "is")
  case Nil
  show ?case by simp
next
  case (Cons a as)
  then have a: "a < 100" by simp
  note k = kismon_name [OF a]
  from Cons have IH: "find_next_ifnum_loop env ''kismon'' as =
       (case List.find (\<lambda>i. if_nametoindex env (''kismon'' @ utoa i) = 0) as of
          None \<Rightarrow> -1 | Some i \<Rightarrow> int i)" by simp
  show ?case
    unfolding find_next_ifnum_loop.simps k IH by simp
qed

lemma find_next_ifnum_found:
  assumes "N < 100" "if_nametoindex env (''kismon'' @ utoa N) = 0"
    "\<forall>j<N. if_nametoindex env (''kismon'' @ utoa j) \<noteq> 0"
  shows "find_next_ifnum env ''kismon'' = int N"
proof -
  have "List.find (\<lambda>i. if_nametoindex env (''kismon'' @ utoa i) = 0) [0..<100] = Some N"
    unfolding find_Some_iff using assms by (intro exI [of _ N]) simp
  then show ?thesis
    by (simp add: find_next_ifnum_def find_next_ifnum_loop_char)
qed

lemma find_next_ifnum_none:
  assumes "\<forall>j<100. if_nametoindex env (''kismon'' @ utoa j) \<noteq> 0"
  shows "find_next_ifnum env ''kismon'' = -1"
proof -
  have "List.find (\<lambda>i. if_nametoindex env (''kismon'' @ utoa i) = 0) [0..<100] = None"
    unfolding find_None_iff using assms by simp
  then show ?thesis
    by (simp add: find_next_ifnum_def find_next_ifnum_loop_char)
qed

lemma open_monitor_name_cases:
  shows "length ifname + 3 < IFNAMSIZ \<Longrightarrow> iwconfig_get_mode env (ifname @ ''mon'') = Inr m \<Longrightarrow>
           m \<noteq> LINUX_WLEXT_MONITOR \<Longrightarrow> isl (open_monitor_name env ifname)"
    and "length ifname + 3 < IFNAMSIZ \<Longrightarrow>
           \<not> (\<exists>m. iwconfig_get_mode env (ifname @ ''mon'') = Inr m \<and> m \<noteq> LINUX_WLEXT_MONITOR) \<Longrightarrow>
           open_monitor_name env ifname = Inr (ifname @ ''mon'')"
    and "IFNAMSIZ \<le> length ifname + 3 \<Longrightarrow> N < 100 \<Longrightarrow>
           if_nametoindex env (''kismon'' @ utoa N) = 0 \<Longrightarrow>
           \<forall>j<N. if_nametoindex env (''kismon'' @ utoa j) \<noteq> 0 \<Longrightarrow>
           open_monitor_name env ifname = Inr (''kismon'' @ utoa N)"
    and "IFNAMSIZ \<le> length ifname + 3 \<Longrightarrow>
           \<forall>j<100. if_nametoindex env (''kismon'' @ utoa j) \<noteq> 0 \<Longrightarrow>
           isl (open_monitor_name env ifname)"
proof -
  show "isl (open_monitor_name env ifname)"
    if "length ifname + 3 < IFNAMSIZ" "iwconfig_get_mode env (ifname @ ''mon'') = Inr m"
      "m \<noteq> LINUX_WLEXT_MONITOR"
    using that by (simp add: open_monitor_name_def snprintf_n_def IFNAMSIZ_def Let_def)
  show "open_monitor_name env ifname = Inr (ifname @ ''mon'')"
    if "length ifname + 3 < IFNAMSIZ"
      "\<not> (\<exists>m. iwconfig_get_mode env (ifname @ ''mon'') = Inr m \<and> m \<noteq> LINUX_WLEXT_MONITOR)"
    using that
    by (auto simp: open_monitor_name_def snprintf_n_def IFNAMSIZ_def Let_def split: sum.splits)
  show "open_monitor_name env ifname = Inr (''kismon'' @ utoa N)"
    if "IFNAMSIZ \<le> length ifname + 3" "N < 100" "if_nametoindex env (''kismon'' @ utoa N) = 0"
      "\<forall>j<N. if_nametoindex env (''kismon'' @ utoa j) \<noteq> 0"
    using that(1,2) kismon_name [OF that(2)]
    by (simp add: open_monitor_name_def find_next_ifnum_found [OF that(2-4)] Let_def)
  show "isl (open_monitor_name env ifname)"
    if "IFNAMSIZ \<le> length ifname + 3" "\<forall>j<100. if_nametoindex env (''kismon'' @ utoa j) \<noteq> 0"
    using that(1)
    by (simp add: open_monitor_name_def find_next_ifnum_none [OF that(2)] Let_def)
qed

lemma open_head_naming:
  assumes "derives_monitor_name env lw defn ifname"
  shows "fst (open_callback_head env lw defn msg) =
           (case open_monitor_name env ifname of Inl m \<Rightarrow> Some (-1) | Inr n \<Rightarrow> None)"
    and "cap_interface (fst (snd (open_callback_head env lw defn msg))) =
           (case open_monitor_name env ifname of Inl m \<Rightarrow> None | Inr n \<Rightarrow> Some n)"
proof -
  note d = assms [unfolded derives_monitor_name_def]
  obtain plen ptxt where p: "cf_parse_interface env defn = (plen, ptxt)"
    by (cases "cf_parse_interface env defn") auto
  with d have plen: "\<not> plen \<le> 0" and ifname: "take (nat plen) ptxt = ifname" by auto
  from d obtain hw where h: "ifconfig_get_hwaddr env ifname = Inr hw"
    by (cases "ifconfig_get_hwaddr env ifname") auto
  with d have adopt:
    "find_interface_mode_by_mac env (Some ifname) LINUX_WLEXT_MONITOR hw < 0
     \<or> if_indextoname env (word_of_int (find_interface_mode_by_mac env (Some ifname)
                                           LINUX_WLEXT_MONITOR hw)) = None"
    by simp
  from d obtain mode where m: "iwconfig_get_mode env ifname = Inr mode"
    by (cases "iwconfig_get_mode env ifname") auto
  with d have mode: "mode \<noteq> LINUX_WLEXT_MONITOR" by simp
  from d have hard: "linux_sys_get_rfkill env ifname LINUX_RFKILL_TYPE_HARD \<noteq> 1"
    and soft: "\<not> (linux_sys_get_rfkill env ifname LINUX_RFKILL_TYPE_SOFT = 1
                   \<and> linux_sys_clear_rfkill env ifname < 0)"
    and vif: "\<not> 0 < fst (cf_find_flag env ''vif'' defn)"
    and cap: "cap_interface lw = None"
    by auto
  obtain flen ftxt where f: "cf_find_flag env ''vif'' defn = (flen, ftxt)"
    by (cases "cf_find_flag env ''vif'' defn") auto
  with vif have flen: "\<not> 0 < flen" by simp
  define lwp where "lwp =
     (if 0 \<le> find_interface_mode_by_mac env (Some ifname) LINUX_WLEXT_MONITOR hw
      then case if_indextoname env
                  (word_of_int (find_interface_mode_by_mac env (Some ifname)
                                  LINUX_WLEXT_MONITOR hw)) of
             None \<Rightarrow> lw\<lparr>interface := Some ifname\<rparr>
           | Some ifnam \<Rightarrow> lw\<lparr>interface := Some ifname, cap_interface := Some ifnam\<rparr>
      else lw\<lparr>interface := Some ifname\<rparr>)"
  define evs where "evs =
     (if linux_sys_get_rfkill env ifname LINUX_RFKILL_TYPE_SOFT = 1
      then [Cf_send_message (''Removed soft-rfkill and enabled interface ''
              @ quote @ ifname @ quote) MSGFLAG_INFO]
      else [])"
  have lw': "cap_interface lwp = None"
    using adopt cap by (auto simp: lwp_def)
  have eq: "open_callback_head env lw defn msg =
          (case open_monitor_name env ifname of
             Inl e \<Rightarrow> (Some (-1), lwp, e, Some (open_uuid env hw), evs)
           | Inr n \<Rightarrow> (None, lwp\<lparr>cap_interface := Some n\<rparr>, msg, Some (open_uuid env hw), evs))"
    unfolding open_callback_head_def p f prod.case Let_def ifname h m sum.case
      lwp_def [symmetric] evs_def [symmetric]
    using plen hard flen mode lw'
    by (simp add: soft cong del: if_weak_cong)
  show "fst (open_callback_head env lw defn msg) =
           (case open_monitor_name env ifname of Inl m \<Rightarrow> Some (-1) | Inr n \<Rightarrow> None)"
    by (simp add: eq split: sum.splits)
  show "cap_interface (fst (snd (open_callback_head env lw defn msg))) =
           (case open_monitor_name env ifname of Inl m \<Rightarrow> None | Inr n \<Rightarrow> Some n)"
    by (simp add: eq lw' split: sum.splits)
qed

text \<open>
  C7. Let the open reach the point where it has to come up with a monitor name for the
  interface \<open>ifname\<close>: no \<^verbatim>\<open>vif\<close> flag, no existing monitor interface taken over,
  \<^verbatim>\<open>cap_interface\<close> still \<^verbatim>\<open>NULL\<close>. If \<open>strlen(ifname) + 3 < IFNAMSIZ\<close>, the name is
  \<open>ifname\<close> followed by \<^verbatim>\<open>mon\<close>, and the open fails (returns -1) when the mode of an
  interface of that name can be read and is not monitor mode. Otherwise the name is
  \<^verbatim>\<open>kismon\<close> followed by \<open>N\<close>, for the least \<open>N < 100\<close> such that no interface has
  that name, and the open fails when all hundred names are taken.
\<close>

theorem open_monitor_vif_name:
  assumes "derives_monitor_name env lw defn ifname"
  shows "(length ifname + 3 < IFNAMSIZ \<longrightarrow>
            ((\<exists>m. iwconfig_get_mode env (ifname @ ''mon'') = Inr m \<and> m \<noteq> LINUX_WLEXT_MONITOR) \<longrightarrow>
               fst (open_callback_head env lw defn msg) = Some (-1))
          \<and> (\<not> (\<exists>m. iwconfig_get_mode env (ifname @ ''mon'') = Inr m \<and> m \<noteq> LINUX_WLEXT_MONITOR) \<longrightarrow>
               fst (open_callback_head env lw defn msg) = None
               \<and> cap_interface (fst (snd (open_callback_head env lw defn msg)))
                   = Some (ifname @ ''mon'')))
       \<and> (IFNAMSIZ \<le> length ifname + 3 \<longrightarrow>
            (N < 100 \<and> if_nametoindex env (''kismon'' @ utoa N) = 0
               \<and> (\<forall>j<N. if_nametoindex env (''kismon'' @ utoa j) \<noteq> 0) \<longrightarrow>
               fst (open_callback_head env lw defn msg) = None
               \<and> cap_interface (fst (snd (open_callback_head env lw defn msg)))
                   = Some (''kismon'' @ utoa N))
          \<and> ((\<forall>j<100. if_nametoindex env (''kismon'' @ utoa j) \<noteq> 0) \<longrightarrow>
               fst (open_callback_head env lw defn msg) = Some (-1)))"
proof (intro conjI impI)
  note h = open_head_naming [OF assms, of msg]
  {
    assume short: "length ifname + 3 < IFNAMSIZ"
    {
      assume "\<exists>m. iwconfig_get_mode env (ifname @ ''mon'') = Inr m \<and> m \<noteq> LINUX_WLEXT_MONITOR"
      then obtain m where "iwconfig_get_mode env (ifname @ ''mon'') = Inr m"
        "m \<noteq> LINUX_WLEXT_MONITOR" by blast
      from open_monitor_name_cases(1) [OF short this]
      show "fst (open_callback_head env lw defn msg) = Some (-1)"
        by (auto simp: h(1) isl_def)
    }
    {
      assume "\<not> (\<exists>m. iwconfig_get_mode env (ifname @ ''mon'') = Inr m \<and> m \<noteq> LINUX_WLEXT_MONITOR)"
      note n = open_monitor_name_cases(2) [OF short this]
      show "fst (open_callback_head env lw defn msg) = None"
        by (simp add: h(1) n)
      show "cap_interface (fst (snd (open_callback_head env lw defn msg))) = Some (ifname @ ''mon'')"
        by (simp add: h(2) n)
    }
  }
  {
    assume long: "IFNAMSIZ \<le> length ifname + 3"
    {
      assume "N < 100 \<and> if_nametoindex env (''kismon'' @ utoa N) = 0
               \<and> (\<forall>j<N. if_nametoindex env (''kismon'' @ utoa j) \<noteq> 0)"
      then have a: "N < 100" "if_nametoindex env (''kismon'' @ utoa N) = 0"
        "\<forall>j<N. if_nametoindex env (''kismon'' @ utoa j) \<noteq> 0" by simp_all
      note n = open_monitor_name_cases(3) [OF long a]
      show "fst (open_callback_head env lw defn msg) = None"
        by (simp add: h(1) n)
      show "cap_interface (fst (snd (open_callback_head env lw defn msg))) = Some (''kismon'' @ utoa N)"
        by (simp add: h(2) n)
    }
    {
      assume "\<forall>j<100. if_nametoindex env (''kismon'' @ utoa j) \<noteq> 0"
      from open_monitor_name_cases(4) [OF long this]
      show "fst (open_callback_head env lw defn msg) = Some (-1)"
        by (auto simp: h(1) isl_def)
    }
  }
qed

lemma sample_derives:
  "derives_monitor_name sample_env initial_wifi ''wlan0'' ''wlan0''"
  "derives_monitor_name sample_env initial_wifi ''wlx00c0ca123456'' ''wlx00c0ca123456''"
  "derives_monitor_name
     (sample_env\<lparr>iwconfig_get_mode := (\<lambda>n. if n = ''wlan0mon'' then Inr 2 else iwconfig_get_mode sample_env n)\<rparr>)
     initial_wifi ''wlan0'' ''wlan0''"
  "derives_monitor_name (sample_env\<lparr>if_nametoindex := (\<lambda>n. 9)\<rparr>) initial_wifi
     ''wlx00c0ca123456'' ''wlx00c0ca123456''"
  by (simp_all add: derives_monitor_name_def find_interface_mode_by_mac_def sample_env_def
        initial_wifi_def LINUX_WLEXT_MONITOR_def)

lemma sample_kismon:
  "if_nametoindex sample_env (''kismon'' @ utoa 2) = 0"
  "\<forall>j<2. if_nametoindex sample_env (''kismon'' @ utoa j) \<noteq> 0"
  by (auto simp: sample_env_def utoa_eval digit_char_eval dest!: less_2_cases)

theorem open_monitor_vif_name_witness:
  "cap_interface (fst (snd (open_callback_head sample_env initial_wifi ''wlan0'' [])))
     = Some ''wlan0mon''
   \<and> fst (open_callback_head
        (sample_env\<lparr>iwconfig_get_mode :=
           (\<lambda>n. if n = ''wlan0mon'' then Inr 2 else iwconfig_get_mode sample_env n)\<rparr>)
        initial_wifi ''wlan0'' []) = Some (-1)
   \<and> cap_interface (fst (snd (open_callback_head sample_env initial_wifi ''wlx00c0ca123456'' [])))
     = Some ''kismon2''
   \<and> fst (open_callback_head (sample_env\<lparr>if_nametoindex := (\<lambda>n. 9)\<rparr>) initial_wifi
        ''wlx00c0ca123456'' []) = Some (-1)"
  using open_monitor_vif_name [OF sample_derives(1), where N = 0 and msg = "[]"]
    open_monitor_vif_name [OF sample_derives(3), where N = 0 and msg = "[]"]
    open_monitor_vif_name [OF sample_derives(2), where N = 2 and msg = "[]"]
    open_monitor_vif_name [OF sample_derives(4), where N = 0 and msg = "[]"]
    sample_kismon
  by (simp add: IFNAMSIZ_def sample_env_def LINUX_WLEXT_MONITOR_def utoa_eval digit_char_eval)

lemma xtoa_eval:
  "xtoa 0 = [hex_char 0]"
  "xtoa (Suc 0) = [hex_char (Suc 0)]"
  "xtoa (numeral k) = (if (numeral k :: nat) < 16 then [hex_char (numeral k)]
                       else xtoa (numeral k div 16) @ [hex_char (numeral k mod 16)])"
  by (subst xtoa.simps, simp)+

lemma hex_char_eval:
  "hex_char 0 = CHR ''0''" "hex_char (Suc 0) = CHR ''1''" "hex_char 2 = CHR ''2''"
  "hex_char 3 = CHR ''3''" "hex_char 4 = CHR ''4''" "hex_char 5 = CHR ''5''"
  "hex_char 6 = CHR ''6''" "hex_char 7 = CHR ''7''" "hex_char 8 = CHR ''8''"
  "hex_char 9 = CHR ''9''" "hex_char 10 = CHR ''A''" "hex_char 11 = CHR ''B''"
  "hex_char 12 = CHR ''C''" "hex_char 13 = CHR ''D''" "hex_char 14 = CHR ''E''"
  "hex_char 15 = CHR ''F''"
  by (simp_all add: hex_char_def char_of_eq_iff)

lemma replicate_2: "replicate 2 c = [c, c]"
  by (simp add: numeral_2_eq_2)

lemma sample_uuid:
  "open_uuid sample_env (0x00, 0x11, 0x22, 0x33, 0x44, 0x55) = ''00C0FFEE-0000-0000-0000-001122334455''"
  "open_uuid sample_env_vif (0x00, 0x11, 0x22, 0x33, 0x44, 0x55) = ''00C0FFEE-0000-0000-0000-001122334455''"
  by (simp_all add: open_uuid_def sample_env_def sample_env_vif_def fmt_0X_def xtoa_eval
        hex_char_eval replicate_2)

lemma sample_open_vif:
  "open_callback_head sample_env_vif initial_wifi ''wlan0:vif=mon0'' [] =
     (None, initial_wifi\<lparr>interface := Some ''wlan0'', cap_interface := Some ''mon0''\<rparr>, [],
      Some ''00C0FFEE-0000-0000-0000-001122334455'', [])"
proof -
  have u: "open_uuid sample_env_vif (0x00, 0x11, 0x22, 0x33, 0x44, 0x55) = ''00C0FFEE-0000-0000-0000-001122334455''"
    by (rule sample_uuid)
  have p: "cf_parse_interface sample_env_vif ''wlan0:vif=mon0'' = (5, ''wlan0:vif=mon0'')"
    by (simp add: sample_env_vif_def sample_env_def)
  have h: "ifconfig_get_hwaddr sample_env_vif ''wlan0'' = Inr (0x00, 0x11, 0x22, 0x33, 0x44, 0x55)"
    by (simp add: sample_env_vif_def sample_env_def)
  have r: "linux_sys_get_rfkill sample_env_vif ''wlan0'' t = 0" for t
    by (simp add: sample_env_vif_def sample_env_def)
  have m: "iwconfig_get_mode sample_env_vif ''wlan0'' = Inr 2"
    by (simp add: sample_env_vif_def sample_env_def)
  have f: "cf_find_flag sample_env_vif ''vif'' d = (4, ''mon0'')" for d
    by (simp add: sample_env_vif_def sample_env_def)
  show ?thesis
    unfolding open_callback_head_def p prod.case
    by (simp add: h r m f u LINUX_WLEXT_MONITOR_def Let_def)
qed

text \<open>
  The claim C8 as first stated takes the address from the capture interface. The code
  reads it from the interface named in the definition, before the capture interface is
  chosen: with \<^verbatim>\<open>vif=mon0\<close> the capture interface is \<^verbatim>\<open>mon0\<close>, whose address is
  66:77:88:99:AA:BB here, and the UUID ends in the address of \<^verbatim>\<open>wlan0\<close>.
\<close>

theorem open_uuid_not_capture_interface:
  "open_callback_head sample_env_vif initial_wifi ''wlan0:vif=mon0'' [] =
     (None, initial_wifi\<lparr>interface := Some ''wlan0'', cap_interface := Some ''mon0''\<rparr>, [],
      Some ''00C0FFEE-0000-0000-0000-001122334455'', [])
   \<and> ifconfig_get_hwaddr sample_env_vif ''mon0'' = Inr (0x66, 0x77, 0x88, 0x99, 0xAA, 0xBB)
   \<and> ifconfig_get_hwaddr sample_env_vif ''wlan0'' = Inr (0x00, 0x11, 0x22, 0x33, 0x44, 0x55)"
  by (simp add: sample_open_vif) (simp add: sample_env_vif_def sample_env_def)

theorem open_uuid_form_witness:
  "open_callback_head sample_env_vif initial_wifi ''wlan0:vif=mon0'' [] =
     (None, initial_wifi\<lparr>interface := Some ''wlan0'', cap_interface := Some ''mon0''\<rparr>, [],
      Some ''00C0FFEE-0000-0000-0000-001122334455'', [])
   \<and> (\<exists>ifname h0 h1 h2 h3 h4 h5 A M0 M1 M2 M3 M4 M5.
         interface (initial_wifi\<lparr>interface := Some ''wlan0'', cap_interface := Some ''mon0''\<rparr>)
           = Some ifname
         \<and> ifconfig_get_hwaddr sample_env_vif ifname = Inr (h0, h1, h2, h3, h4, h5)
         \<and> ''00C0FFEE-0000-0000-0000-001122334455''
             = A @ ''-0000-0000-0000-'' @ M0 @ M1 @ M2 @ M3 @ M4 @ M5
         \<and> is_hex_of 8 (unat (adler32_csum sample_env_vif (map of_char ''kismet_cap_linux_wifi''))) A
         \<and> is_hex_of 2 (unat h0) M0 \<and> is_hex_of 2 (unat h1) M1 \<and> is_hex_of 2 (unat h2) M2
         \<and> is_hex_of 2 (unat h3) M3 \<and> is_hex_of 2 (unat h4) M4 \<and> is_hex_of 2 (unat h5) M5)"
  using open_uuid_form [OF sample_open_vif] sample_open_vif by blast

end
